theory Spec2Isabelle
  imports Complex_Main "HOL-Library.Multiset" "HOL-Library.Sublist" "HOL-Library.Word"
begin

section \<open>House3D SUNCG scene (renderer/suncg/scene.cc)\<close>

text \<open>
  A shallow embedding of \<^verbatim>\<open>scene.cc\<close>: the colour allocator
  \<^verbatim>\<open>get_uniform_sampled_colors\<close>, the fragment shader \<^verbatim>\<open>SUNCGShader::fShader\<close>,
  the category resolver \<^verbatim>\<open>get_color_by_shape_name\<close>, the blacklist filter
  \<^verbatim>\<open>filter_models\<close>, the scene builder \<^verbatim>\<open>parse_scene\<close> and \<^verbatim>\<open>activate\<close>.

  Conventions.
  \<^item> A C++ \<^verbatim>\<open>int\<close> is an \<open>int\<close> of HOL; where an addition can leave the 32-bit
    range the wrap-around is written out (\<open>int32_wrap\<close>); \<^verbatim>\<open>/\<close> and \<^verbatim>\<open>%\<close> truncate
    towards zero (\<open>c_div\<close>, \<open>c_mod\<close>).
  \<^item> \<^verbatim>\<open>float\<close> and \<^verbatim>\<open>double\<close> values are real numbers, with no infinities and no
    NaN. In the shader every arithmetic operation that can round passes its exact
    result through the rounding function \<open>fl\<close>, a parameter; operations whose exact
    result is a \<^verbatim>\<open>float\<close> again (\<^verbatim>\<open>floor\<close>, \<^verbatim>\<open>min\<close>, \<^verbatim>\<open>max\<close>, \<^verbatim>\<open>clamp\<close>, the
    scaling by 256 and the difference \<^verbatim>\<open>f - ms * 256.0f\<close>) are exact. In the C++ code
    \<^verbatim>\<open>float\<close>s are copied and compared, which does not round; the quotients
    \<^verbatim>\<open>r / 255.0\<close> of the colour allocator (\<open>0 \<le> r \<le> 255\<close>) are the exact quotients:
    rounding is monotone and one-to-one on them and keeps 0 and 1.
  \<^item> A failed \<^verbatim>\<open>m_assert\<close>, a division by zero and an out-of-range \<^verbatim>\<open>operator[]\<close>
    end the run: the function returns \<open>Inl\<close> of an \<open>error\<close>.
  \<^item> A member \<^verbatim>\<open>x_\<close> of \<^verbatim>\<open>SUNCGScene\<close> is the field \<open>x_m\<close> of the record \<open>scene\<close>.
\<close>

subsection \<open>Vectors (glm)\<close>

datatype vec2 = Vec2 real real

datatype vec3 = Vec3 (vx: real) (vy: real) (vz: real)

datatype vec4 = Vec4 (cr: real) (cg: real) (cb: real) (ca: real)

definition vec4_of :: "vec3 \<Rightarrow> real \<Rightarrow> vec4" where
  "vec4_of v a = Vec4 (vx v) (vy v) (vz v) a"

definition xyz :: "vec4 \<Rightarrow> vec3" where
  "xyz c = Vec3 (cr c) (cg c) (cb c)"

text \<open>
  The vector operations of the shader round each component; \<^verbatim>\<open>dot\<close> rounds each
  product and each sum; \<^verbatim>\<open>normalize\<close> divides by the length, whose square root is
  taken by \<open>fsqrt\<close>, the square root of the \<^verbatim>\<open>float\<close> arithmetic (a parameter, as
  \<open>fl\<close> is).
\<close>

definition vec3_add :: "(real \<Rightarrow> real) \<Rightarrow> vec3 \<Rightarrow> vec3 \<Rightarrow> vec3" where
  "vec3_add fl a b = Vec3 (fl (vx a + vx b)) (fl (vy a + vy b)) (fl (vz a + vz b))"

definition vec3_sub :: "(real \<Rightarrow> real) \<Rightarrow> vec3 \<Rightarrow> vec3 \<Rightarrow> vec3" where
  "vec3_sub fl a b = Vec3 (fl (vx a - vx b)) (fl (vy a - vy b)) (fl (vz a - vz b))"

definition vec3_mul :: "(real \<Rightarrow> real) \<Rightarrow> vec3 \<Rightarrow> vec3 \<Rightarrow> vec3" where
  "vec3_mul fl a b = Vec3 (fl (vx a * vx b)) (fl (vy a * vy b)) (fl (vz a * vz b))"

definition vec3_scale :: "(real \<Rightarrow> real) \<Rightarrow> vec3 \<Rightarrow> real \<Rightarrow> vec3" where
  "vec3_scale fl a k = Vec3 (fl (vx a * k)) (fl (vy a * k)) (fl (vz a * k))"

definition dot :: "(real \<Rightarrow> real) \<Rightarrow> vec3 \<Rightarrow> vec3 \<Rightarrow> real" where
  "dot fl a b = fl (fl (fl (vx a * vx b) + fl (vy a * vy b)) + fl (vz a * vz b))"

definition normalize :: "(real \<Rightarrow> real) \<Rightarrow> (real \<Rightarrow> real) \<Rightarrow> vec3 \<Rightarrow> vec3" where
  "normalize fl fsqrt a =
     (let len = fsqrt (dot fl a a)
      in Vec3 (fl (vx a / len)) (fl (vy a / len)) (fl (vz a / len)))"

definition clamp :: "real \<Rightarrow> real \<Rightarrow> real \<Rightarrow> real" where
  "clamp v lo hi = min (max v lo) hi"

definition vec3_clamp :: "vec3 \<Rightarrow> real \<Rightarrow> real \<Rightarrow> vec3" where
  "vec3_clamp a lo hi = Vec3 (clamp (vx a) lo hi) (clamp (vy a) lo hi) (clamp (vz a) lo hi)"

text \<open>\<^verbatim>\<open>glm::min\<close> and \<^verbatim>\<open>glm::max\<close> on vectors work componentwise.\<close>

definition vec3_min :: "vec3 \<Rightarrow> vec3 \<Rightarrow> vec3" where
  "vec3_min a b = Vec3 (min (vx a) (vx b)) (min (vy a) (vy b)) (min (vz a) (vz b))"

definition vec3_max :: "vec3 \<Rightarrow> vec3 \<Rightarrow> vec3" where
  "vec3_max a b = Vec3 (max (vx a) (vx b)) (max (vy a) (vy b)) (max (vz a) (vz b))"

subsection \<open>The fragment shader\<close>

text \<open>
  The rounding of \<^verbatim>\<open>float\<close> arithmetic is the parameter \<open>fl\<close> of the shader: \<open>fl x\<close>
  is the \<^verbatim>\<open>float\<close> that an operation with the exact result \<open>x\<close> returns. A literal
  that is not a \<^verbatim>\<open>float\<close> (\<^verbatim>\<open>0.1f\<close>, \<^verbatim>\<open>0.3f\<close>) is rounded too. \<open>rounds_to_float\<close>
  is the standard model of binary32 arithmetic: a relative error of at most \<open>2^-24\<close>.
\<close>

definition float_eps :: real where
  "float_eps = 1 / 16777216"

definition rounds_to_float :: "(real \<Rightarrow> real) \<Rightarrow> bool" where
  "rounds_to_float fl = (\<forall>x. \<bar>fl x - x\<bar> \<le> float_eps * \<bar>x\<bar>)"

definition NEAR :: "(real \<Rightarrow> real) \<Rightarrow> real" where
  "NEAR fl = fl (1 / 10)"

definition FAR :: real where
  "FAR = 100"

definition INV_NEAR :: "(real \<Rightarrow> real) \<Rightarrow> real" where
  "INV_NEAR fl = fl (1 / NEAR fl)"

definition INV_FAR :: "(real \<Rightarrow> real) \<Rightarrow> real" where
  "INV_FAR fl = fl (1 / FAR)"

definition DEPTH_SCALE :: real where
  "DEPTH_SCALE = 20"

text \<open>
  The uniforms of the shader. The sampler \<^verbatim>\<open>texture_diffuse\<close> is the function that
  \<^verbatim>\<open>texture(texture_diffuse, texcoord)\<close> evaluates.
\<close>

record uniforms =
  mode :: "32 word"
  Kd :: vec3
  Ka :: vec3
  eye :: vec3
  dissolve :: real
  texture_diffuse :: "vec2 \<Rightarrow> vec4"
  minDepth :: real

definition InverseDepth :: "(real \<Rightarrow> real) \<Rightarrow> real \<Rightarrow> real" where
  "InverseDepth fl d = fl (INV_NEAR fl + fl (d * fl (INV_FAR fl - INV_NEAR fl)))"

definition TrueDepth :: "(real \<Rightarrow> real) \<Rightarrow> real \<Rightarrow> real" where
  "TrueDepth fl d = fl (1 / InverseDepth fl d)"

text \<open>
  \<^verbatim>\<open>main\<close>: the inputs \<^verbatim>\<open>pos\<close>, \<^verbatim>\<open>normal\<close>, \<^verbatim>\<open>texcoord\<close> and \<^verbatim>\<open>gl_FragCoord.z\<close>
  are arguments, the result is \<^verbatim>\<open>fragcolor\<close>. The local \<^verbatim>\<open>color\<close> is not
  initialised and the \<^verbatim>\<open>switch\<close> assigns it in modes 0 and 1 only: \<open>uninit\<close> is the
  value it holds otherwise.
\<close>

definition fShader_main ::
  "(real \<Rightarrow> real) \<Rightarrow> (real \<Rightarrow> real) \<Rightarrow> uniforms \<Rightarrow>
   vec3 \<Rightarrow> vec3 \<Rightarrow> vec2 \<Rightarrow> real \<Rightarrow> vec3 \<Rightarrow> vec4" where
  "fShader_main fl fsqrt u pos normal texcoord gl_FragCoord_z uninit =
     (if mode u = 2 then vec4_of (Kd u) 1
      else if mode u = 3 then
        (let scaledDepth = fl (TrueDepth fl gl_FragCoord_z / DEPTH_SCALE)
         in Vec4 scaledDepth scaledDepth scaledDepth 1)
      else if mode u = 4 then
        (let invDepth = InverseDepth fl gl_FragCoord_z;
             f = fl (fl (fl (65535 * minDepth u) * invDepth) + 5 / 10);
             ms = real_of_int \<lfloor>f / 256\<rfloor>;
             ls = real_of_int \<lfloor>f - ms * 256\<rfloor>
         in Vec4 (fl (ms / 255)) (fl (ls / 255)) 0 1)
      else
        (let alpha = dissolve u;
             (color, alpha) =
               (if mode u = 0 then
                  (let texcolor = texture_diffuse u texcoord
                   in (vec3_mul fl (Kd u) (xyz texcolor), min (ca texcolor) alpha))
                else if mode u = 1 then (Kd u, alpha)
                else (uninit, alpha));
             in_vec = normalize fl fsqrt (vec3_sub fl (eye u) pos);
             scale = max (dot fl in_vec normal) (fl (3 / 10));
             ambient = vec3_scale fl (Ka u) (fl (1 / 10));
             color = vec3_add fl (vec3_scale fl color scale) ambient;
             color = vec3_clamp color 0 1
         in vec4_of color alpha))"

subsection \<open>C++ integer arithmetic\<close>

definition INT_MAX :: int where
  "INT_MAX = 2147483647"

definition int32_wrap :: "int \<Rightarrow> int" where
  "int32_wrap v = (v + 2147483648) mod 4294967296 - 2147483648"

definition c_div :: "int \<Rightarrow> int \<Rightarrow> int" where
  "c_div a b = sgn a * sgn b * (\<bar>a\<bar> div \<bar>b\<bar>)"

definition c_mod :: "int \<Rightarrow> int \<Rightarrow> int" where
  "c_mod a b = a - b * c_div a b"

datatype error = DivisionByZero | AssertionFailed | OutOfRange

text \<open>
  Modelled from the spec: the macros \<^verbatim>\<open>m_assert\<close> and \<^verbatim>\<open>print_debug\<close> (defined
  outside \<^verbatim>\<open>scene.cc\<close>). A violated assertion is fatal, with no recovery;
  \<^verbatim>\<open>print_debug\<close> emits its message as one diagnostic and goes on.
\<close>

definition m_assert :: "bool \<Rightarrow> error + unit" where
  "m_assert expr = (if expr then Inr () else Inl AssertionFailed)"

definition print_debug :: "string \<Rightarrow> string list" where
  "print_debug msg = [msg]"

subsection \<open>The colour allocator\<close>

text \<open>
  The \<^verbatim>\<open>for\<close> loop of \<^verbatim>\<open>get_uniform_sampled_colors\<close>, with its variables \<^verbatim>\<open>i\<close>,
  \<^verbatim>\<open>current_color\<close> and \<^verbatim>\<open>result\<close> as arguments. \<^verbatim>\<open>i + 1\<close> cannot overflow,
  since \<^verbatim>\<open>i < count\<close>.
\<close>

function sample_loop :: "int \<Rightarrow> int \<Rightarrow> int \<Rightarrow> int \<Rightarrow> vec3 list \<Rightarrow> vec3 list" where
  "sample_loop cnt interval_length i current_color result =
     (if i < cnt then
        (let r = c_mod current_color 256;
             g = c_mod (c_div current_color 256) 256;
             b = c_mod (c_div (c_div current_color 256) 256) 256
         in sample_loop cnt interval_length (i + 1)
              (int32_wrap (current_color + interval_length))
              (result @ [Vec3 (real_of_int r / 255) (real_of_int g / 255) (real_of_int b / 255)]))
      else result)"
  by pat_completeness auto
termination
  by (relation "measure (\<lambda>(cnt, interval_length, i, current_color, result). nat (cnt - i))") auto

declare sample_loop.simps [simp del]

text \<open>
  \<^verbatim>\<open>std::random_shuffle(first, last)\<close> as libstdc++ and libc++ implement it: for
  \<open>i = 1, \<dots>, n - 1\<close> the element at \<open>i\<close> is exchanged with the one at
  \<^verbatim>\<open>rand() % (i + 1)\<close>. The random source is the argument \<open>rand\<close>: \<open>rand k\<close> is the
  value of the \<open>k\<close>-th call of \<^verbatim>\<open>rand()\<close> (counted from 0).
\<close>

definition swap :: "nat \<Rightarrow> nat \<Rightarrow> 'a list \<Rightarrow> 'a list" where
  "swap i j xs = xs[i := xs ! j, j := xs ! i]"

function shuffle_loop :: "(nat \<Rightarrow> nat) \<Rightarrow> nat \<Rightarrow> 'a list \<Rightarrow> 'a list" where
  "shuffle_loop rand i xs =
     (if i < length xs then
        (let j = rand (i - 1) mod (i + 1)
         in shuffle_loop rand (i + 1) (if i \<noteq> j then swap i j xs else xs))
      else xs)"
  by pat_completeness auto
termination
  by (relation "measure (\<lambda>(rand, i, xs). length xs - i)") (auto simp: swap_def)

declare shuffle_loop.simps [simp del]

definition random_shuffle :: "(nat \<Rightarrow> nat) \<Rightarrow> 'a list \<Rightarrow> 'a list" where
  "random_shuffle rand xs = (if xs = [] then xs else shuffle_loop rand 1 xs)"

text \<open>
  \<^verbatim>\<open>static_cast<int>(pow(256, 3))\<close> is 16777216. The sum \<^verbatim>\<open>count + 2\<close> wraps around
  for the two largest values of \<^verbatim>\<open>count\<close>; a divisor 0 (\<^verbatim>\<open>count == -2\<close>) ends the run.
\<close>

definition get_uniform_sampled_colors :: "(nat \<Rightarrow> nat) \<Rightarrow> int \<Rightarrow> error + vec3 list" where
  "get_uniform_sampled_colors rand cnt =
     (if int32_wrap (cnt + 2) = 0 then Inl DivisionByZero
      else
        (let interval_length = c_div 16777216 (int32_wrap (cnt + 2));
             current_color = interval_length;
             result = sample_loop cnt interval_length 0 current_color []
         in Inr (random_shuffle rand result)))"

subsection \<open>Strings (std::string)\<close>

text \<open>
  \<^verbatim>\<open>s.find(c)\<close> and \<^verbatim>\<open>s.find(str)\<close>: the first position of a match; \<open>None\<close> is
  \<^verbatim>\<open>string::npos\<close>. \<^verbatim>\<open>s.substr(p)\<close> is \<open>drop p s\<close> and \<^verbatim>\<open>s.substr(0, n)\<close> is
  \<open>take n s\<close>.
\<close>

fun find_char :: "char \<Rightarrow> string \<Rightarrow> nat option" where
  "find_char c [] = None"
| "find_char c (x # xs) = (if x = c then Some 0 else map_option Suc (find_char c xs))"

fun find_str :: "string \<Rightarrow> string \<Rightarrow> nat option" where
  "find_str sub [] = (if sub = [] then Some 0 else None)"
| "find_str sub (x # xs) =
     (if prefix sub (x # xs) then Some 0 else map_option Suc (find_str sub xs))"

subsection \<open>Scene data\<close>

text \<open>
  Modelled from the spec: the types of the mesh loader and of scene.hh (declared
  outside \<^verbatim>\<open>scene.cc\<close>), with the fields that \<^verbatim>\<open>scene.cc\<close> reads or writes. Of
  \<^verbatim>\<open>tinyobj::material_t\<close> only \<^verbatim>\<open>diffuse_texname\<close> is kept (the other fields are read
  by \<^verbatim>\<open>draw\<close> alone); \<^verbatim>\<open>original_index\<close> is an index, \<^verbatim>\<open>original_num_shapes\<close> an
  \<^verbatim>\<open>int\<close>, as \<^verbatim>\<open>get_uniform_sampled_colors\<close> takes it.
\<close>

record Vertex =
  pos :: vec3
  normal :: vec3
  texcoord :: vec2

record index_t =
  vertex_index :: int
  normal_index :: int
  texcoord_index :: int

record mesh_t =
  indices :: "index_t list"
  num_face_vertices :: "nat list"
  material_ids :: "int list"

record material_t =
  diffuse_texname :: string

record Shape =
  name :: string
  original_index :: nat
  mesh :: mesh_t

record ObjLoader =
  shapes :: "Shape list"
  materials :: "material_t list"
  original_num_shapes :: int

text \<open>
  \<^verbatim>\<open>MaterialDesc{mid, label_color, instance_color, 0UL, &obj_.materials[mid]}\<close>:
  the pointer into \<^verbatim>\<open>obj_.materials\<close> is the index \<open>m_ref\<close> of the element it
  points to.
\<close>

record MaterialDesc =
  mat_id :: int
  label_color :: vec3
  instance_color :: vec3
  texture :: nat
  m_ref :: nat

record Mesh =
  vertices :: "Vertex list"
  activated :: bool

text \<open>
  The members of \<^verbatim>\<open>SUNCGScene\<close>; \<open>diagnostics\<close> is what \<^verbatim>\<open>print_debug\<close> has
  written.
\<close>

record scene =
  obj_m :: ObjLoader
  background_color_m :: vec3
  boxmin_m :: vec3
  boxmax_m :: vec3
  mesh_m :: "Mesh list"
  materials_m :: "MaterialDesc list"
  diagnostics :: "string list"

subsection \<open>The category resolver\<close>

text \<open>
  What \<^verbatim>\<open>scene.cc\<close> calls and does not define: \<^verbatim>\<open>semantic_color_.get_color\<close>
  (category.hh), \<^verbatim>\<open>name_from_mode_id\<close> (scene.hh), \<^verbatim>\<open>obj_.convertFace\<close> (the
  mesh loader) and \<^verbatim>\<open>textures_.get\<close> (the texture registry). They are parameters,
  with nothing assumed of them.
\<close>

record externals =
  get_color :: "string \<Rightarrow> vec3"
  name_from_mode_id :: "string \<Rightarrow> string"
  convertFace :: "mesh_t \<Rightarrow> nat \<Rightarrow> Vertex list"
  textures_get :: "string \<Rightarrow> nat"

text \<open>
  The result is the colour together with the lines \<^verbatim>\<open>print_debug\<close> writes in this
  call.
\<close>

definition get_color_by_shape_name ::
  "externals \<Rightarrow> vec3 \<Rightarrow> string \<Rightarrow> vec3 \<times> string list" where
  "get_color_by_shape_name ext background_color nm =
     (if find_str ''Model#'' nm = Some 0 then
        (let size_prefix = 6;
             model_id = drop size_prefix nm;
             klass = name_from_mode_id ext model_id;
             color = get_color ext klass
         in (color, []))
      else if nm = ''Ground'' then (get_color ext ''Ground'', [])
      else
        (case find_char CHR ''#'' nm of
           Some split \<Rightarrow>
             (let klass = take split nm;
                  klass = (if klass = ''WallInside'' \<or> klass = ''WallOutside''
                           then ''Wall'' else klass);
                  color = get_color ext klass
              in (color, []))
         | None \<Rightarrow>
             (background_color,
              print_debug (''Failed to get color for shape '' @ nm @ [CHR 0x0A]))))"

subsection \<open>The blacklist filter\<close>

text \<open>
  \<open>fs\<close> is the file system: the lines of a file, or \<open>None\<close> when it cannot be
  opened.
\<close>

definition filter_models :: "(string \<Rightarrow> string list option) \<Rightarrow> string \<Rightarrow> scene \<Rightarrow> scene" where
  "filter_models fs model_blacklist_file s =
     (case fs model_blacklist_file of
        None \<Rightarrow>
          s\<lparr>diagnostics := diagnostics s @
               print_debug (''Could not open file '' @ model_blacklist_file @ [CHR 0x0A])\<rparr>
      | Some lines \<Rightarrow>
          (let blk_models = map (\<lambda>str. ''Model#'' @ str) lines
           in s\<lparr>obj_m := (obj_m s)\<lparr>shapes :=
                  filter (\<lambda>shape. name shape \<notin> set blk_models) (shapes (obj_m s))\<rparr>\<rparr>))"

subsection \<open>The scene builder\<close>

definition FLT_MAX :: real where
  "FLT_MAX = 340282346638528859811704183484516925440"

definition FLT_LOWEST :: real where
  "FLT_LOWEST = - 340282346638528859811704183484516925440"

text \<open>
  The body of the innermost loop of \<^verbatim>\<open>parse_scene\<close>: \<^verbatim>\<open>mesh_.back()\<close> is the mesh
  that \<^verbatim>\<open>mesh_.emplace_back()\<close> has just added.
\<close>

definition add_vertex :: "Vertex \<Rightarrow> scene \<Rightarrow> scene" where
  "add_vertex v s =
     s\<lparr>mesh_m := butlast (mesh_m s) @
          [(last (mesh_m s))\<lparr>vertices := vertices (last (mesh_m s)) @ [v]\<rparr>],
       boxmin_m := vec3_min (boxmin_m s) (pos v),
       boxmax_m := vec3_max (boxmax_m s) (pos v)\<rparr>"

text \<open>
  One iteration of the loop over \<^verbatim>\<open>obj_.shapes\<close>. Reading
  \<^verbatim>\<open>rand_instance_colors\<close> or \<^verbatim>\<open>obj_.materials\<close> outside their range returns
  \<open>OutOfRange\<close>.
\<close>

definition parse_shape :: "externals \<Rightarrow> vec3 list \<Rightarrow> scene \<Rightarrow> Shape \<Rightarrow> error + scene" where
  "parse_shape ext rand_instance_colors s0 shp =
     (let (label_color, diag) = get_color_by_shape_name ext (background_color_m s0) (name shp);
          s = s0\<lparr>diagnostics := diagnostics s0 @ diag\<rparr>
      in if \<not> original_index shp < length rand_instance_colors then Inl OutOfRange
         else
           (let instance_color = rand_instance_colors ! original_index shp;
                tmesh = mesh shp;
                nr_face = length (num_face_vertices tmesh);
                matids = material_ids tmesh
            in case m_assert (length matids = nr_face) of
                 Inl e \<Rightarrow> Inl e
               | Inr _ \<Rightarrow>
               (case m_assert (0 < nr_face) of
                  Inl e \<Rightarrow> Inl e
                | Inr _ \<Rightarrow>
                 (let mid = matids ! 0
                  in if \<not> (0 \<le> mid \<and> nat mid < length (materials (obj_m s)))
                     then Inl OutOfRange
                     else
                       Inr (fold (\<lambda>f. fold add_vertex (convertFace ext tmesh f)) [0..<nr_face]
                         (s\<lparr>mesh_m := mesh_m s @ [\<lparr>vertices = [], activated = False\<rparr>],
                            materials_m := materials_m s @
                              [\<lparr>mat_id = mid, label_color = label_color,
                                instance_color = instance_color, texture = 0,
                                m_ref = nat mid\<rparr>]\<rparr>))))))"

fun parse_shapes :: "externals \<Rightarrow> vec3 list \<Rightarrow> Shape list \<Rightarrow> scene \<Rightarrow> error + scene" where
  "parse_shapes ext rand_instance_colors [] s = Inr s"
| "parse_shapes ext rand_instance_colors (shp # rest) s =
     (case parse_shape ext rand_instance_colors s shp of
        Inl e \<Rightarrow> Inl e
      | Inr s' \<Rightarrow> parse_shapes ext rand_instance_colors rest s')"

definition parse_scene :: "externals \<Rightarrow> (nat \<Rightarrow> nat) \<Rightarrow> scene \<Rightarrow> error + scene" where
  "parse_scene ext rand s0 =
     (let x = FLT_MAX;
          s = s0\<lparr>boxmin_m := Vec3 x x x\<rparr>;
          x = FLT_LOWEST;
          s = s\<lparr>boxmax_m := Vec3 x x x\<rparr>
      in case get_uniform_sampled_colors rand (original_num_shapes (obj_m s)) of
           Inl e \<Rightarrow> Inl e
         | Inr rand_instance_colors \<Rightarrow>
             (case parse_shapes ext rand_instance_colors (shapes (obj_m s)) s of
                Inl e \<Rightarrow> Inl e
              | Inr s' \<Rightarrow> Inr (s'\<lparr>obj_m := (obj_m s')\<lparr>shapes := []\<rparr>\<rparr>)))"

subsection \<open>Activation\<close>

text \<open>
  The loop of \<^verbatim>\<open>activate\<close> over the indices \<open>0, \<dots>, nr_mesh - 1\<close>;
  \<^verbatim>\<open>mesh_[i].activate()\<close> sets the flag \<open>activated\<close>. The upload of the textures
  (\<^verbatim>\<open>textures_.activate()\<close>) changes nothing that is modelled.
\<close>

fun activate_loop :: "externals \<Rightarrow> nat list \<Rightarrow> scene \<Rightarrow> error + scene" where
  "activate_loop ext [] s = Inr s"
| "activate_loop ext (i # rest) s =
     (let material = materials_m s ! i
      in if \<not> m_ref material < length (materials (obj_m s)) then Inl OutOfRange
         else activate_loop ext rest
           (s\<lparr>materials_m := (materials_m s)[i := material\<lparr>texture :=
                  textures_get ext (diffuse_texname (materials (obj_m s) ! m_ref material))\<rparr>],
              mesh_m := (mesh_m s)[i := (mesh_m s ! i)\<lparr>activated := True\<rparr>]\<rparr>))"

definition activate :: "externals \<Rightarrow> scene \<Rightarrow> error + scene" where
  "activate ext s =
     (let nr_mesh = length (mesh_m s)
      in case m_assert (nr_mesh = length (materials_m s)) of
           Inl e \<Rightarrow> Inl e
         | Inr _ \<Rightarrow> activate_loop ext [0..<nr_mesh] s)"

section \<open>Reference definitions\<close>

subsection \<open>The palette, in the specification's words\<close>

text \<open>
  The specification's description of the palette, written from its words: a raw integer
  \<open>v\<close> is decoded as red \<open>v mod 256\<close>, green \<open>(v / 256) mod 256\<close>, blue
  \<open>(v / 256 / 256) mod 256\<close>, each divided by 255; the \<open>i\<close>-th raw integer is
  \<open>interval * (i + 1)\<close> with \<open>interval = floor (256^3 / (count + 2))\<close>.
\<close>

definition decode_color :: "int \<Rightarrow> vec3" where
  "decode_color v =
     Vec3 (real_of_int (v mod 256) / 255)
          (real_of_int (v div 256 mod 256) / 255)
          (real_of_int (v div 256 div 256 mod 256) / 255)"

definition spec_colors :: "int \<Rightarrow> vec3 list" where
  "spec_colors cnt =
     (let interval = 16777216 div (cnt + 2)
      in map (\<lambda>i. decode_color (interval * (int i + 1))) [0..<nat cnt])"

definition in_unit_cube :: "vec3 \<Rightarrow> bool" where
  "in_unit_cube c =
     (0 \<le> vx c \<and> vx c \<le> 1 \<and> 0 \<le> vy c \<and> vy c \<le> 1 \<and> 0 \<le> vz c \<and> vz c \<le> 1)"

subsection \<open>Reading a pixel\<close>

text \<open>
  The consumer of the inverse-depth image reads the red and green channels as 8-bit
  values \<open>R\<close> and \<open>G\<close> and decodes \<open>depth_code = 256 * R + G\<close>. An 8-bit channel
  holds a colour value clamped to \<open>[0, 1]\<close>, scaled by 255 and rounded to the nearest
  integer.
\<close>

definition unorm8 :: "real \<Rightarrow> int" where
  "unorm8 c = \<lfloor>255 * clamp c 0 1 + 1 / 2\<rfloor>"

subsection \<open>Closed forms of the builder's loops\<close>

text \<open>
  What one iteration of the loop over the shapes appends, and the conditions under
  which it returns. \<open>shape_vertices\<close> lists the vertices of a shape, face after face,
  in the order \<^verbatim>\<open>parse_scene\<close> visits them; \<open>shape_ok\<close> collects the checks of
  \<open>parse_shape\<close>; \<open>built\<close> is the scene after the loop. The lemmas \<open>parse_shape_Inr\<close>,
  \<open>parse_shapes_ok\<close> and \<open>parse_scene_Inr\<close> below prove that the loops compute them.
\<close>

definition shape_vertices :: "externals \<Rightarrow> Shape \<Rightarrow> Vertex list" where
  "shape_vertices ext shp =
     concat (map (convertFace ext (mesh shp)) [0..<length (num_face_vertices (mesh shp))])"

definition shape_ok :: "vec3 list \<Rightarrow> material_t list \<Rightarrow> Shape \<Rightarrow> bool" where
  "shape_ok cols mats shp =
     (original_index shp < length cols \<and>
      length (material_ids (mesh shp)) = length (num_face_vertices (mesh shp)) \<and>
      0 < length (num_face_vertices (mesh shp)) \<and>
      0 \<le> material_ids (mesh shp) ! 0 \<and>
      nat (material_ids (mesh shp) ! 0) < length mats)"

definition material_desc :: "externals \<Rightarrow> vec3 \<Rightarrow> vec3 list \<Rightarrow> Shape \<Rightarrow> MaterialDesc" where
  "material_desc ext bg cols shp =
     \<lparr>mat_id = material_ids (mesh shp) ! 0,
      label_color = fst (get_color_by_shape_name ext bg (name shp)),
      instance_color = cols ! original_index shp,
      texture = 0,
      m_ref = nat (material_ids (mesh shp) ! 0)\<rparr>"

definition new_mesh :: "externals \<Rightarrow> Shape \<Rightarrow> Mesh" where
  "new_mesh ext shp = \<lparr>vertices = shape_vertices ext shp, activated = False\<rparr>"

definition box_min :: "Vertex list \<Rightarrow> vec3 \<Rightarrow> vec3" where
  "box_min vs b = fold (\<lambda>v b. vec3_min b (pos v)) vs b"

definition box_max :: "Vertex list \<Rightarrow> vec3 \<Rightarrow> vec3" where
  "box_max vs b = fold (\<lambda>v b. vec3_max b (pos v)) vs b"

definition built :: "externals \<Rightarrow> vec3 list \<Rightarrow> Shape list \<Rightarrow> scene \<Rightarrow> scene" where
  "built ext cols shps s =
     s\<lparr>mesh_m := mesh_m s @ map (new_mesh ext) shps,
       materials_m := materials_m s @ map (material_desc ext (background_color_m s) cols) shps,
       boxmin_m := box_min (concat (map (shape_vertices ext) shps)) (boxmin_m s),
       boxmax_m := box_max (concat (map (shape_vertices ext) shps)) (boxmax_m s),
       diagnostics := diagnostics s @
         concat (map (\<lambda>shp. snd (get_color_by_shape_name ext (background_color_m s) (name shp))) shps)\<rparr>"

definition reset_box :: "scene \<Rightarrow> scene" where
  "reset_box s = s\<lparr>boxmin_m := Vec3 FLT_MAX FLT_MAX FLT_MAX,
                   boxmax_m := Vec3 FLT_LOWEST FLT_LOWEST FLT_LOWEST\<rparr>"

definition retained_vertices :: "externals \<Rightarrow> Shape list \<Rightarrow> Vertex list" where
  "retained_vertices ext shps = concat (map (shape_vertices ext) shps)"

text \<open>The coordinates a \<^verbatim>\<open>float\<close> can hold (infinities and NaN apart).\<close>

definition in_float_range :: "vec3 \<Rightarrow> bool" where
  "in_float_range p =
     (FLT_LOWEST \<le> vx p \<and> vx p \<le> FLT_MAX \<and>
      FLT_LOWEST \<le> vy p \<and> vy p \<le> FLT_MAX \<and>
      FLT_LOWEST \<le> vz p \<and> vz p \<le> FLT_MAX)"

section \<open>Example inputs\<close>

text \<open>
  A mesh loader that reads the position of a vertex off its index triple, three
  indices to a face; a scene of four shapes and two materials; a blacklist that
  removes \<^verbatim>\<open>Model#7\<close>.
\<close>

definition example_ext :: externals where
  "example_ext =
     \<lparr>get_color = (\<lambda>klass.
         if klass = ''Chair'' then Vec3 1 0 0
         else if klass = ''Ground'' then Vec3 0 1 0
         else if klass = ''Wall'' then Vec3 0 0 1
         else Vec3 0 0 0),
      name_from_mode_id = (\<lambda>model_id. if model_id = ''5'' then ''Chair'' else ''person''),
      convertFace = (\<lambda>tmesh f.
         map (\<lambda>idx. \<lparr>pos = Vec3 (real_of_int (vertex_index idx)) (real_of_int (normal_index idx))
                                 (real_of_int (texcoord_index idx)),
                      normal = Vec3 0 0 1, texcoord = Vec2 0 0\<rparr>)
           (take 3 (drop (3 * f) (indices tmesh)))),
      textures_get = (\<lambda>texname. length texname)\<rparr>"

definition triangle :: "int \<Rightarrow> int list \<Rightarrow> mesh_t" where
  "triangle k mids =
     \<lparr>indices = map (\<lambda>j. \<lparr>vertex_index = k + j, normal_index = 2 * k - j, texcoord_index = - k\<rparr>)
                   [0, 1, 2, 3, 4, 5],
      num_face_vertices = map (\<lambda>_. 3) mids,
      material_ids = mids\<rparr>"

definition example_scene :: scene where
  "example_scene =
     \<lparr>obj_m = \<lparr>shapes =
                 [\<lparr>name = ''Model#5'', original_index = 0, mesh = triangle 1 [0]\<rparr>,
                  \<lparr>name = ''Model#7'', original_index = 1, mesh = triangle 2 [1]\<rparr>,
                  \<lparr>name = ''Ground'', original_index = 2, mesh = triangle 3 [1]\<rparr>,
                  \<lparr>name = ''WallInside#1'', original_index = 3, mesh = triangle 4 [0, 0]\<rparr>],
               materials = [\<lparr>diffuse_texname = ''wood.jpg''\<rparr>, \<lparr>diffuse_texname = ''''\<rparr>],
               original_num_shapes = 4\<rparr>,
      background_color_m = Vec3 (1/2) (1/2) (1/2),
      boxmin_m = Vec3 0 0 0,
      boxmax_m = Vec3 0 0 0,
      mesh_m = [],
      materials_m = [],
      diagnostics = []\<rparr>"

definition example_fs :: "string \<Rightarrow> string list option" where
  "example_fs fname = (if fname = ''blacklist.txt'' then Some [''7''] else None)"

definition example_filtered :: scene where
  "example_filtered = filter_models example_fs ''blacklist.txt'' example_scene"

definition example_built :: scene where
  "example_built = projr (parse_scene example_ext (\<lambda>k. k) example_filtered)"

definition empty_scene :: scene where
  "empty_scene = example_scene\<lparr>obj_m := (obj_m example_scene)\<lparr>shapes := []\<rparr>\<rparr>"

definition two_material_scene :: scene where
  "two_material_scene =
     \<lparr>obj_m = \<lparr>shapes = [\<lparr>name = ''Model#5'', original_index = 0, mesh = triangle 1 [0, 1]\<rparr>],
               materials = [\<lparr>diffuse_texname = ''wood.jpg''\<rparr>, \<lparr>diffuse_texname = ''''\<rparr>],
               original_num_shapes = 1\<rparr>,
      background_color_m = Vec3 (1/2) (1/2) (1/2),
      boxmin_m = Vec3 0 0 0,
      boxmax_m = Vec3 0 0 0,
      mesh_m = [],
      materials_m = [],
      diagnostics = []\<rparr>"

definition two_material_shape :: Shape where
  "two_material_shape = \<lparr>name = ''Model#5'', original_index = 0, mesh = triangle 1 [0, 1]\<rparr>"

definition zero_face_shape :: Shape where
  "zero_face_shape = \<lparr>name = ''Ground'', original_index = 0, mesh = triangle 1 []\<rparr>"

definition garbage_shape :: Shape where
  "garbage_shape = \<lparr>name = ''garbage'', original_index = 0, mesh = triangle 1 [0]\<rparr>"

text \<open>
  A rounding that always errs away from zero by the largest relative error, a square
  root that takes one averaging step from 1, and uniforms for the modes 2 and 4.
\<close>

definition fl_up :: "real \<Rightarrow> real" where
  "fl_up x = x * (16777217 / 16777216)"

definition sqrt_step :: "real \<Rightarrow> real" where
  "sqrt_step x = (1 + x) / 2"

definition example_uniforms :: uniforms where
  "example_uniforms =
     \<lparr>mode = 2, Kd = Vec3 0 0 1, Ka = Vec3 (1/5) (1/5) (1/5), eye = Vec3 0 1 0,
      dissolve = 1/2, texture_diffuse = (\<lambda>tc. Vec4 1 1 1 1), minDepth = 1/10\<rparr>"

definition depth_uniforms :: uniforms where
  "depth_uniforms = example_uniforms\<lparr>mode := 4\<rparr>"

definition near_uniforms :: uniforms where
  "near_uniforms = example_uniforms\<lparr>mode := 4, minDepth := 1\<rparr>"

section \<open>The colour allocator\<close>

subsection \<open>Integer arithmetic of the loop\<close>

lemma c_div_nonneg: "0 \<le> a \<Longrightarrow> 0 < b \<Longrightarrow> c_div a b = a div b"
  by (cases "a = 0") (simp_all add: c_div_def sgn_if)

lemma c_mod_nonneg: "0 \<le> a \<Longrightarrow> 0 < b \<Longrightarrow> c_mod a b = a mod b"
  by (simp add: c_mod_def c_div_nonneg minus_mult_div_eq_mod)

lemma int32_wrap_id: "- 2147483648 \<le> v \<Longrightarrow> v \<le> 2147483647 \<Longrightarrow> int32_wrap v = v"
  by (simp add: int32_wrap_def)

lemma sample_step:
  assumes "0 \<le> c"
  shows "Vec3 (real_of_int (c_mod c 256) / 255)
              (real_of_int (c_mod (c_div c 256) 256) / 255)
              (real_of_int (c_mod (c_div (c_div c 256) 256) 256) / 255) = decode_color c"
proof -
  have "0 \<le> c div 256" using assms by simp
  moreover have "0 \<le> c div 256 div 256" using assms by simp
  ultimately show ?thesis
    using assms by (simp add: decode_color_def c_div_nonneg c_mod_nonneg)
qed

lemma sample_loop_eq:
  assumes "0 \<le> i" "i \<le> cnt" "0 \<le> L" "L * (cnt + 1) \<le> 2147483647"
  shows "sample_loop cnt L i (L * (i + 1)) res =
         res @ map (\<lambda>k. decode_color (L * (int k + 1))) [nat i..<nat cnt]"
  using assms
proof (induction "nat (cnt - i)" arbitrary: i res)
  case 0
  then have "i = cnt" by simp
  then show ?case by (simp add: sample_loop.simps)
next
  case (Suc m)
  then have lt: "i < cnt" by linarith
  have nn: "0 \<le> L * (i + 1)" using Suc.prems by simp
  have "L * (i + 2) \<le> L * (cnt + 1)"
    using lt Suc.prems(3) by (intro mult_left_mono) auto
  then have ub: "L * (i + 2) \<le> 2147483647" using Suc.prems(4) by linarith
  have "0 \<le> L * (i + 2)" using Suc.prems by simp
  then have wrap: "int32_wrap (L * (i + 1) + L) = L * (i + 1 + 1)"
    using ub by (simp add: int32_wrap_id algebra_simps)
  have m: "m = nat (cnt - (i + 1))" using Suc.hyps(2) by linarith
  have IH: "sample_loop cnt L (i + 1) (L * (i + 1 + 1)) (res @ [decode_color (L * (i + 1))]) =
        (res @ [decode_color (L * (i + 1))]) @ map (\<lambda>k. decode_color (L * (int k + 1))) [nat (i + 1)..<nat cnt]"
    using Suc.hyps(1)[OF m] lt Suc.prems by simp
  have suc: "nat (i + 1) = Suc (nat i)" using Suc.prems(1) by linarith
  have "nat i < nat cnt" using lt Suc.prems(1) by linarith
  then have upt: "[nat i..<nat cnt] = nat i # [nat (i + 1)..<nat cnt]"
    unfolding suc by (rule upt_conv_Cons)
  have "sample_loop cnt L i (L * (i + 1)) res =
        sample_loop cnt L (i + 1) (L * (i + 1 + 1)) (res @ [decode_color (L * (i + 1))])"
    using lt by (subst sample_loop.simps) (simp only: if_True Let_def sample_step[OF nn] wrap)
  also note IH
  finally show ?case unfolding upt using Suc.prems(1) by simp
qed

lemma interval_length_eq:
  assumes "0 \<le> cnt" "cnt \<le> 2147483647"
  shows "int32_wrap (cnt + 2) \<noteq> 0"
    and "c_div 16777216 (int32_wrap (cnt + 2)) = 16777216 div (cnt + 2)"
proof -
  consider "cnt \<le> 2147483645" | "cnt = 2147483646" | "cnt = 2147483647"
    using assms by linarith
  then have "int32_wrap (cnt + 2) \<noteq> 0 \<and> c_div 16777216 (int32_wrap (cnt + 2)) = 16777216 div (cnt + 2)"
  proof cases
    case 1
    then have "int32_wrap (cnt + 2) = cnt + 2" using assms by (simp add: int32_wrap_id)
    then show ?thesis using assms by (simp add: c_div_nonneg)
  next
    case 2
    then show ?thesis by (simp add: int32_wrap_def c_div_def)
  next
    case 3
    then show ?thesis by (simp add: int32_wrap_def c_div_def)
  qed
  then show "int32_wrap (cnt + 2) \<noteq> 0"
    and "c_div 16777216 (int32_wrap (cnt + 2)) = 16777216 div (cnt + 2)" by simp_all
qed

lemma interval_length_bounds:
  assumes "0 \<le> (cnt::int)"
  shows "0 \<le> 16777216 div (cnt + 2)"
    and "16777216 div (cnt + 2) * (cnt + 1) \<le> 16777216"
proof -
  let ?L = "16777216 div (cnt + 2)"
  show nn: "0 \<le> ?L" using assms by (simp add: pos_imp_zdiv_nonneg_iff)
  have "?L * (cnt + 1) \<le> ?L * (cnt + 2)" using nn by (intro mult_left_mono) auto
  also have "\<dots> \<le> 16777216" using assms
    by (metis add_pos_nonneg div_mult_mod_eq le_add_same_cancel1 pos_mod_sign zero_less_numeral add.commute)
  finally show "?L * (cnt + 1) \<le> 16777216" .
qed

lemma swap_length: "length (swap i j xs) = length xs"
  by (simp add: swap_def)

lemma swap_mset: "i < length xs \<Longrightarrow> j < length xs \<Longrightarrow> mset (swap i j xs) = mset xs"
  by (simp add: swap_def mset_swap)

lemma shuffle_loop_mset: "mset (shuffle_loop rand i xs) = mset xs"
proof (induction rand i xs rule: shuffle_loop.induct)
  case (1 rand i xs)
  show ?case
  proof (cases "i < length xs")
    case True
    let ?j = "rand (i - 1) mod (i + 1)"
    let ?ys = "if i \<noteq> ?j then swap i ?j xs else xs"
    have "?j < i + 1" by (rule mod_less_divisor) simp
    then have "?j < length xs" using True by linarith
    then have ys: "mset ?ys = mset xs"
      using True by (simp add: swap_mset)
    have "shuffle_loop rand i xs = shuffle_loop rand (i + 1) ?ys"
      using True by (subst shuffle_loop.simps) (simp only: if_True Let_def)
    also have "mset \<dots> = mset ?ys" by (rule "1.IH"[OF True refl])
    finally show ?thesis using ys by simp
  next
    case False
    then show ?thesis by (subst shuffle_loop.simps) simp
  qed
qed

lemma random_shuffle_mset: "mset (random_shuffle rand xs) = mset xs"
  by (simp add: random_shuffle_def shuffle_loop_mset)

lemma random_shuffle_length: "length (random_shuffle rand xs) = length xs"
  using random_shuffle_mset[of rand xs] by (metis size_mset)

lemma random_shuffle_set: "set (random_shuffle rand xs) = set xs"
  using random_shuffle_mset[of rand xs] by (metis set_mset_mset)

lemma random_shuffle_distinct: "distinct (random_shuffle rand xs) = distinct xs"
  using random_shuffle_mset[of rand xs] by (metis mset_eq_imp_distinct_iff)

lemma decode_color_components:
  "0 \<le> vx (decode_color v) \<and> vx (decode_color v) \<le> 1 \<and>
   0 \<le> vy (decode_color v) \<and> vy (decode_color v) \<le> 1 \<and>
   0 \<le> vz (decode_color v) \<and> vz (decode_color v) \<le> 1"
proof -
  have "\<And>w::int. 0 \<le> w mod 256 \<and> w mod 256 \<le> 255"
    using pos_mod_bound[of 256] pos_mod_sign[of 256] by (simp add: zle_diff1_eq [symmetric] del: zle_diff1_eq)
  then show ?thesis by (simp add: decode_color_def)
qed

lemma decode_color_inj:
  assumes "0 \<le> v" "v < 16777216" "0 \<le> w" "w < 16777216" "decode_color v = decode_color w"
  shows "v = w"
proof -
  have r: "v mod 256 = w mod 256" and g: "v div 256 mod 256 = w div 256 mod 256"
    and b: "v div 256 div 256 mod 256 = w div 256 div 256 mod 256"
    using assms(5) by (simp_all add: decode_color_def)
  have "v div 256 div 256 < 256" "0 \<le> v div 256 div 256" using assms(1,2) by simp_all
  then have v2: "v div 256 div 256 mod 256 = v div 256 div 256" by simp
  have "w div 256 div 256 < 256" "0 \<le> w div 256 div 256" using assms(3,4) by simp_all
  then have w2: "w div 256 div 256 mod 256 = w div 256 div 256" by simp
  have "v div 256 div 256 = w div 256 div 256" using b v2 w2 by simp
  then have "v div 256 = w div 256" using g by (metis div_mult_mod_eq)
  then show ?thesis using r by (metis div_mult_mod_eq)
qed

lemma sampled_distinct:
  assumes "1 \<le> L" "L * int n < 16777216"
  shows "distinct (map (\<lambda>k. decode_color (L * (int k + 1))) [0..<n])"
proof -
  have "inj_on (\<lambda>k. decode_color (L * (int k + 1))) (set [0..<n])"
  proof (rule inj_onI)
    fix a b
    assume a: "a \<in> set [0..<n]" and b: "b \<in> set [0..<n]"
      and eq: "decode_color (L * (int a + 1)) = decode_color (L * (int b + 1))"
    have bound: "L * (int k + 1) < 16777216 \<and> 0 \<le> L * (int k + 1)" if "k < n" for k
    proof -
      have "L * (int k + 1) \<le> L * int n" using that assms(1) by (intro mult_left_mono) auto
      moreover have "0 \<le> L * (int k + 1)" using assms(1) by simp
      ultimately show ?thesis using assms(2) by linarith
    qed
    have "L * (int a + 1) = L * (int b + 1)"
      using decode_color_inj[OF _ _ _ _ eq] bound[of a] bound[of b] a b by simp
    then show "a = b" using assms(1) by simp
  qed
  then show ?thesis by (simp add: distinct_map)
qed

subsection \<open>The palette before and after the shuffle\<close>

lemma unshuffled_nonneg:
  assumes "0 \<le> cnt"
  shows "sample_loop cnt (16777216 div (cnt + 2)) 0 (16777216 div (cnt + 2)) [] = spec_colors cnt"
proof -
  let ?L = "16777216 div (cnt + 2)"
  have "?L * (cnt + 1) \<le> 2147483647"
    using interval_length_bounds(2)[OF assms] by linarith
  then have "sample_loop cnt ?L 0 (?L * (0 + 1)) [] =
      [] @ map (\<lambda>k. decode_color (?L * (int k + 1))) [nat 0..<nat cnt]"
    using assms interval_length_bounds(1)[OF assms] by (intro sample_loop_eq) auto
  then show ?thesis
    by (simp add: spec_colors_def)
qed

lemma sampled_nonneg:
  assumes "0 \<le> cnt" "cnt \<le> INT_MAX"
  shows "get_uniform_sampled_colors rand cnt = Inr (random_shuffle rand (spec_colors cnt))"
proof -
  have le: "cnt \<le> 2147483647" using assms(2) by (simp add: INT_MAX_def)
  show ?thesis
    using interval_length_eq[OF assms(1) le] unshuffled_nonneg[OF assms(1)]
    by (simp add: get_uniform_sampled_colors_def Let_def)
qed

lemma sampled_negative:
  assumes "cnt < 0" "int32_wrap (cnt + 2) \<noteq> 0"
  shows "get_uniform_sampled_colors rand cnt = Inr (random_shuffle rand (spec_colors cnt))"
proof -
  have "sample_loop cnt L 0 L [] = []" for L
    using assms(1) by (subst sample_loop.simps) simp
  moreover have "spec_colors cnt = []" using assms(1) by (simp add: spec_colors_def)
  ultimately show ?thesis using assms(2)
    by (simp add: get_uniform_sampled_colors_def Let_def)
qed

lemma spec_colors_distinct:
  assumes "0 \<le> cnt" "cnt \<le> 16777214"
  shows "distinct (spec_colors cnt)"
proof -
  let ?L = "16777216 div (cnt + 2)"
  have "cnt + 2 \<le> 16777216" using assms by simp
  moreover have "0 < cnt + 2" using assms(1) by simp
  ultimately have "0 < ?L" by (simp only: pos_imp_zdiv_pos_iff)
  then have L1: "1 \<le> ?L" by simp
  have "?L * (cnt + 1) \<le> 16777216" by (rule interval_length_bounds(2)[OF assms(1)])
  moreover have "?L * cnt < ?L * (cnt + 1)" using L1 by simp
  ultimately have "?L * int (nat cnt) < 16777216" using assms(1) by simp
  from sampled_distinct[OF L1 this] show ?thesis by (simp add: spec_colors_def)
qed

lemma spec_colors_unit: "c \<in> set (spec_colors cnt) \<Longrightarrow> in_unit_cube c"
  using decode_color_components by (auto simp: spec_colors_def in_unit_cube_def Let_def)

text \<open>
  Claim C2. For every \<open>count \<ge> 0\<close> (an \<^verbatim>\<open>int\<close>, so at most \<open>INT_MAX\<close>):
  \<^verbatim>\<open>interval_length\<close> is \<open>floor (256^3 / (count + 2))\<close>; the list \<^verbatim>\<open>result\<close> that the loop
  leaves, before the shuffle, is the one whose \<open>i\<close>-th element decodes
  \<open>interval * (i + 1)\<close>; the allocator returns its shuffle, which has exactly \<open>count\<close>
  colours with every component in \<open>[0, 1]\<close>; the colours are pairwise distinct for every
  \<open>count\<close> up to \<open>256^3 - 2\<close> (so up to 10000), and \<open>count = 0\<close> gives the empty list.
\<close>

theorem color_allocator_contract:
  assumes "0 \<le> cnt" and "cnt \<le> INT_MAX"
  shows "(let interval_length = c_div 16777216 (int32_wrap (cnt + 2)) in
            interval_length = 16777216 div (cnt + 2) \<and>
            sample_loop cnt interval_length 0 interval_length [] = spec_colors cnt) \<and>
         (\<forall>i < nat cnt. spec_colors cnt ! i =
            decode_color (16777216 div (cnt + 2) * (int i + 1))) \<and>
         get_uniform_sampled_colors rand cnt = Inr (random_shuffle rand (spec_colors cnt)) \<and>
         (\<exists>cs. get_uniform_sampled_colors rand cnt = Inr cs \<and>
               length cs = nat cnt \<and>
               (\<forall>c \<in> set cs. in_unit_cube c) \<and>
               (cnt \<le> 16777214 \<longrightarrow> distinct cs) \<and>
               (cnt = 0 \<longrightarrow> cs = []))"
proof -
  let ?cs = "random_shuffle rand (spec_colors cnt)"
  have "cnt \<le> 2147483647" using assms(2) by (simp add: INT_MAX_def)
  from interval_length_eq(2)[OF assms(1) this] unshuffled_nonneg[OF assms(1)]
  have pre: "(let interval_length = c_div 16777216 (int32_wrap (cnt + 2)) in
            interval_length = 16777216 div (cnt + 2) \<and>
            sample_loop cnt interval_length 0 interval_length [] = spec_colors cnt)"
    by (simp add: Let_def)
  have nth: "\<forall>i < nat cnt. spec_colors cnt ! i =
            decode_color (16777216 div (cnt + 2) * (int i + 1))"
    by (simp add: spec_colors_def Let_def)
  have eq: "get_uniform_sampled_colors rand cnt = Inr ?cs"
    by (rule sampled_nonneg[OF assms])
  have len: "length ?cs = nat cnt"
    by (simp add: random_shuffle_length spec_colors_def)
  have cube: "\<forall>c \<in> set ?cs. in_unit_cube c"
    by (simp add: random_shuffle_set spec_colors_unit)
  have dist: "cnt \<le> 16777214 \<longrightarrow> distinct ?cs"
    using spec_colors_distinct[OF assms(1)] by (simp add: random_shuffle_distinct)
  have empty: "cnt = 0 \<longrightarrow> ?cs = []"
    using len by auto
  show ?thesis using pre nth eq len cube dist empty by blast
qed

theorem color_allocator_contract_witness:
  "(0::int) \<le> 3 \<and> 3 \<le> INT_MAX \<and>
   spec_colors 3 = [Vec3 (1/5) (1/5) (1/5), Vec3 (2/5) (2/5) (2/5), Vec3 (3/5) (3/5) (3/5)] \<and>
   get_uniform_sampled_colors (\<lambda>k. k) 3 =
     Inr [Vec3 (2/5) (2/5) (2/5), Vec3 (3/5) (3/5) (3/5), Vec3 (1/5) (1/5) (1/5)] \<and>
   (\<exists>cs. get_uniform_sampled_colors (\<lambda>k. k) 3 = Inr cs \<and> length cs = 3 \<and>
      (\<forall>c \<in> set cs. in_unit_cube c) \<and> distinct cs)"
proof -
  have h: "(0::int) \<le> 3" "3 \<le> INT_MAX" by (simp_all add: INT_MAX_def)
  have pre: "spec_colors 3 =
      [Vec3 (1/5) (1/5) (1/5), Vec3 (2/5) (2/5) (2/5), Vec3 (3/5) (3/5) (3/5)]"
    by code_simp
  have post: "random_shuffle (\<lambda>k. k)
      [Vec3 (1/5) (1/5) (1/5), Vec3 (2/5) (2/5) (2/5), Vec3 (3/5) (3/5) (3/5)] =
      [Vec3 (2/5) (2/5) (2/5), Vec3 (3/5) (3/5) (3/5), Vec3 (1/5) (1/5) (1/5)]"
    by code_simp
  from color_allocator_contract[OF h, of "\<lambda>k. k"] show ?thesis
    using h by (simp add: pre post in_unit_cube_def Let_def)
qed

text \<open>
  Claim C10. Two calls with the same \<open>count\<close> and any two random sources end the same
  way and, when they return, return the same multiset of colours; for every \<^verbatim>\<open>int\<close>
  \<open>count\<close> other than \<open>-2\<close> (where the divisor is 0) that multiset is the one of the
  decodings of \<open>interval * (i + 1)\<close>, \<open>i\<close> in \<open>[0, count)\<close>.
\<close>

theorem color_multiset_independent_of_rand:
  "map_sum id mset (get_uniform_sampled_colors rand1 cnt) =
     map_sum id mset (get_uniform_sampled_colors rand2 cnt) \<and>
   (- 2147483648 \<le> cnt \<and> cnt \<le> INT_MAX \<and> cnt \<noteq> - 2 \<longrightarrow>
     map_sum id mset (get_uniform_sampled_colors rand1 cnt) = Inr (mset (spec_colors cnt)))"
proof -
  have "map_sum id mset (get_uniform_sampled_colors rand1 cnt) =
     map_sum id mset (get_uniform_sampled_colors rand2 cnt)"
    by (simp add: get_uniform_sampled_colors_def Let_def random_shuffle_mset)
  moreover have "map_sum id mset (get_uniform_sampled_colors rand1 cnt) = Inr (mset (spec_colors cnt))"
    if "- 2147483648 \<le> cnt" "cnt \<le> INT_MAX" "cnt \<noteq> - 2"
  proof (cases "0 \<le> cnt")
    case True
    then show ?thesis using sampled_nonneg[OF True that(2)] by (simp add: random_shuffle_mset)
  next
    case False
    then have neg: "cnt < 0" by simp
    have "int32_wrap (cnt + 2) = cnt + 2" using that(1) neg by (simp add: int32_wrap_id)
    then have "int32_wrap (cnt + 2) \<noteq> 0" using that(3) by simp
    from sampled_negative[OF neg this] show ?thesis by (simp add: random_shuffle_mset)
  qed
  ultimately show ?thesis by blast
qed

theorem color_multiset_independent_of_rand_witness:
  "map_sum id mset (get_uniform_sampled_colors (\<lambda>k. k) 3) =
     map_sum id mset (get_uniform_sampled_colors (\<lambda>k. 7 * k + 5) 3) \<and>
   - 2147483648 \<le> (3::int) \<and> (3::int) \<le> INT_MAX \<and> (3::int) \<noteq> - 2 \<and>
   map_sum id mset (get_uniform_sampled_colors (\<lambda>k. k) 3) =
     Inr (mset [Vec3 (1/5) (1/5) (1/5), Vec3 (2/5) (2/5) (2/5), Vec3 (3/5) (3/5) (3/5)])"
proof -
  have pre: "spec_colors 3 =
      [Vec3 (1/5) (1/5) (1/5), Vec3 (2/5) (2/5) (2/5), Vec3 (3/5) (3/5) (3/5)]"
    by code_simp
  from color_multiset_independent_of_rand[of "\<lambda>k. k" 3 "\<lambda>k. 7 * k + 5"] show ?thesis
    by (auto simp add: INT_MAX_def pre)
qed

section \<open>The category resolver\<close>

lemma find_str_Some_0: "find_str sub s = Some 0 \<longleftrightarrow> prefix sub s"
  by (cases s) auto

lemma find_char_None: "c \<notin> set s \<Longrightarrow> find_char c s = None"
  by (induction s) auto

lemma find_char_first: "c \<notin> set pre \<Longrightarrow> find_char c (pre @ c # suf) = Some (length pre)"
  by (induction pre) auto

lemma resolver_model:
  "get_color_by_shape_name ext bg (''Model#'' @ model_id) =
     (get_color ext (name_from_mode_id ext model_id), [])"
  by (simp add: get_color_by_shape_name_def print_debug_def)

lemma resolver_ground:
  "get_color_by_shape_name ext bg ''Ground'' = (get_color ext ''Ground'', [])"
  by (simp add: get_color_by_shape_name_def print_debug_def)

text \<open>
  Claim C5. A name \<open>C#rest\<close> (\<open>C\<close> the part before the first \<^verbatim>\<open>#\<close>) that does not
  start with \<^verbatim>\<open>Model#\<close> and is not \<^verbatim>\<open>Ground\<close> resolves to the colour of the class
  \<open>C\<close>, with \<^verbatim>\<open>WallInside\<close> and \<^verbatim>\<open>WallOutside\<close> replaced by \<^verbatim>\<open>Wall\<close>, and writes
  no diagnostic; so \<^verbatim>\<open>WallInside#3\<close>, \<^verbatim>\<open>WallOutside#7\<close> and \<^verbatim>\<open>Wall#1\<close> all get
  the colour of \<^verbatim>\<open>Wall\<close>.
\<close>

theorem resolver_class_before_hash:
  assumes "\<not> prefix ''Model#'' nm" and "nm \<noteq> ''Ground''"
    and "nm = C @ CHR ''#'' # rest" and "CHR ''#'' \<notin> set C"
  shows "get_color_by_shape_name ext bg nm =
           (get_color ext (if C = ''WallInside'' \<or> C = ''WallOutside'' then ''Wall'' else C), []) \<and>
         fst (get_color_by_shape_name ext bg ''WallInside#3'') =
           fst (get_color_by_shape_name ext bg ''Wall#1'') \<and>
         fst (get_color_by_shape_name ext bg ''WallOutside#7'') =
           fst (get_color_by_shape_name ext bg ''Wall#1'') \<and>
         fst (get_color_by_shape_name ext bg ''Wall#1'') = get_color ext ''Wall''"
proof -
  have "get_color_by_shape_name ext bg nm =
           (get_color ext (if C = ''WallInside'' \<or> C = ''WallOutside'' then ''Wall'' else C), [])"
    using assms
    by (simp add: get_color_by_shape_name_def print_debug_def find_str_Some_0 find_char_first Let_def)
  moreover have "get_color_by_shape_name ext bg ''WallInside#3'' = (get_color ext ''Wall'', [])"
    by (simp add: get_color_by_shape_name_def print_debug_def)
  moreover have "get_color_by_shape_name ext bg ''WallOutside#7'' = (get_color ext ''Wall'', [])"
    by (simp add: get_color_by_shape_name_def print_debug_def)
  moreover have "get_color_by_shape_name ext bg ''Wall#1'' = (get_color ext ''Wall'', [])"
    by (simp add: get_color_by_shape_name_def print_debug_def)
  ultimately show ?thesis by simp
qed

theorem resolver_class_before_hash_witness:
  "\<not> prefix ''Model#'' ''Chair#12'' \<and> ''Chair#12'' \<noteq> ''Ground'' \<and>
   ''Chair#12'' = ''Chair'' @ CHR ''#'' # ''12'' \<and> CHR ''#'' \<notin> set ''Chair'' \<and>
   get_color_by_shape_name example_ext (Vec3 (1/2) (1/2) (1/2)) ''Chair#12'' = (Vec3 1 0 0, []) \<and>
   fst (get_color_by_shape_name example_ext (Vec3 (1/2) (1/2) (1/2)) ''WallInside#3'') = Vec3 0 0 1 \<and>
   fst (get_color_by_shape_name example_ext (Vec3 (1/2) (1/2) (1/2)) ''WallOutside#7'') = Vec3 0 0 1 \<and>
   fst (get_color_by_shape_name example_ext (Vec3 (1/2) (1/2) (1/2)) ''Wall#1'') = Vec3 0 0 1"
proof -
  have h: "\<not> prefix ''Model#'' ''Chair#12''" "''Chair#12'' \<noteq> ''Ground''"
    "''Chair#12'' = ''Chair'' @ CHR ''#'' # ''12''" "CHR ''#'' \<notin> set ''Chair''"
    by simp_all
  from resolver_class_before_hash[OF h, of example_ext "Vec3 (1/2) (1/2) (1/2)"]
  show ?thesis by (simp add: example_ext_def)
qed

section \<open>The scene builder\<close>

subsection \<open>One shape\<close>

lemma fold_add_vertex:
  assumes "mesh_m s \<noteq> []"
  shows "fold add_vertex vs s =
     s\<lparr>mesh_m := butlast (mesh_m s) @
          [(last (mesh_m s))\<lparr>vertices := vertices (last (mesh_m s)) @ vs\<rparr>],
       boxmin_m := box_min vs (boxmin_m s),
       boxmax_m := box_max vs (boxmax_m s)\<rparr>"
  using assms
proof (induction vs arbitrary: s)
  case Nil
  then show ?case by (simp add: box_min_def box_max_def)
next
  case (Cons v vs)
  have ne: "mesh_m (add_vertex v s) \<noteq> []" by (simp add: add_vertex_def)
  show ?case
    by (simp add: Cons.IH[OF ne]) (simp add: add_vertex_def box_min_def box_max_def)
qed

lemma fold_faces:
  "fold (\<lambda>f. fold add_vertex (cf f)) fs s = fold add_vertex (concat (map cf fs)) s"
  by (induction fs arbitrary: s) simp_all

lemma parse_shape_Inr:
  assumes "shape_ok cols (materials (obj_m s)) shp"
  shows "parse_shape ext cols s shp =
     Inr (s\<lparr>mesh_m := mesh_m s @ [new_mesh ext shp],
            materials_m := materials_m s @ [material_desc ext (background_color_m s) cols shp],
            boxmin_m := box_min (shape_vertices ext shp) (boxmin_m s),
            boxmax_m := box_max (shape_vertices ext shp) (boxmax_m s),
            diagnostics := diagnostics s @ snd (get_color_by_shape_name ext (background_color_m s) (name shp))\<rparr>)"
  using assms
  by (simp add: parse_shape_def m_assert_def shape_ok_def Let_def split_beta fold_faces fold_add_vertex
      shape_vertices_def new_mesh_def material_desc_def)

lemma parse_shape_Inl:
  assumes "\<not> shape_ok cols (materials (obj_m s)) shp"
  shows "isl (parse_shape ext cols s shp)"
  using assms
  by (auto simp add: parse_shape_def m_assert_def shape_ok_def Let_def split_beta)

lemma built_Nil: "built ext cols [] s = s"
  by (simp add: built_def box_min_def box_max_def)

lemma built_Cons: "built ext cols (shp # shps) s = built ext cols shps (built ext cols [shp] s)"
  by (simp add: built_def box_min_def box_max_def)

lemma built_frame:
  "obj_m (built ext cols shps s) = obj_m s"
  "background_color_m (built ext cols shps s) = background_color_m s"
  by (simp_all add: built_def)

lemma parse_shape_built:
  assumes "shape_ok cols (materials (obj_m s)) shp"
  shows "parse_shape ext cols s shp = Inr (built ext cols [shp] s)"
  by (simp add: parse_shape_Inr[OF assms] built_def)

subsection \<open>The loop over the shapes\<close>

lemma parse_shapes_ok:
  assumes "\<forall>shp \<in> set shps. shape_ok cols (materials (obj_m s)) shp"
  shows "parse_shapes ext cols shps s = Inr (built ext cols shps s)"
  using assms
proof (induction shps arbitrary: s)
  case Nil
  show ?case by (simp add: built_Nil)
next
  case (Cons shp shps)
  have ok: "shape_ok cols (materials (obj_m s)) shp" using Cons.prems by simp
  have rest: "\<forall>x \<in> set shps. shape_ok cols (materials (obj_m (built ext cols [shp] s))) x"
    using Cons.prems by (simp add: built_frame)
  show ?case
    using Cons.IH[OF rest] by (simp add: parse_shape_built[OF ok] built_Cons[of ext cols shp shps s])
qed

lemma parse_shapes_bad:
  assumes "\<not> (\<forall>shp \<in> set shps. shape_ok cols (materials (obj_m s)) shp)"
  shows "isl (parse_shapes ext cols shps s)"
  using assms
proof (induction shps arbitrary: s)
  case Nil
  then show ?case by simp
next
  case (Cons shp shps)
  show ?case
  proof (cases "shape_ok cols (materials (obj_m s)) shp")
    case True
    then have "\<not> (\<forall>x \<in> set shps. shape_ok cols (materials (obj_m (built ext cols [shp] s))) x)"
      using Cons.prems by (simp add: built_frame)
    from Cons.IH[OF this] show ?thesis by (simp add: parse_shape_built[OF True])
  next
    case False
    from parse_shape_Inl[OF this, of ext] show ?thesis
      by (cases "parse_shape ext cols s shp") simp_all
  qed
qed

lemma parse_shapes_Inr:
  assumes "parse_shapes ext cols shps s = Inr s'"
  shows "(\<forall>shp \<in> set shps. shape_ok cols (materials (obj_m s)) shp) \<and> s' = built ext cols shps s"
proof -
  have ok: "\<forall>shp \<in> set shps. shape_ok cols (materials (obj_m s)) shp"
    using parse_shapes_bad[of shps cols s ext] assms by fastforce
  from parse_shapes_ok[OF ok, of ext] assms show ?thesis using ok by simp
qed

lemma parse_scene_Inr:
  assumes "parse_scene ext rand s = Inr s'"
  shows "\<exists>cols. get_uniform_sampled_colors rand (original_num_shapes (obj_m s)) = Inr cols \<and>
           (\<forall>shp \<in> set (shapes (obj_m s)). shape_ok cols (materials (obj_m s)) shp) \<and>
           s' = (built ext cols (shapes (obj_m s)) (reset_box s))\<lparr>obj_m := (obj_m s)\<lparr>shapes := []\<rparr>\<rparr>"
proof -
  obtain cols where cols: "get_uniform_sampled_colors rand (original_num_shapes (obj_m s)) = Inr cols"
    using assms by (cases "get_uniform_sampled_colors rand (original_num_shapes (obj_m s))")
      (simp_all add: parse_scene_def Let_def)
  obtain s1 where s1: "parse_shapes ext cols (shapes (obj_m s)) (reset_box s) = Inr s1"
    and s': "s' = s1\<lparr>obj_m := (obj_m s1)\<lparr>shapes := []\<rparr>\<rparr>"
    using assms cols
    by (cases "parse_shapes ext cols (shapes (obj_m s)) (reset_box s)")
      (simp_all add: parse_scene_def Let_def reset_box_def)
  from parse_shapes_Inr[OF s1] show ?thesis
    using cols s' by (simp add: reset_box_def built_frame)
qed

lemma parse_scene_ok:
  assumes "get_uniform_sampled_colors rand (original_num_shapes (obj_m s)) = Inr cols"
    and "\<forall>shp \<in> set (shapes (obj_m s)). shape_ok cols (materials (obj_m s)) shp"
  shows "parse_scene ext rand s =
     Inr ((built ext cols (shapes (obj_m s)) (reset_box s))\<lparr>obj_m := (obj_m s)\<lparr>shapes := []\<rparr>\<rparr>)"
proof -
  have "\<forall>shp \<in> set (shapes (obj_m (reset_box s))). shape_ok cols (materials (obj_m (reset_box s))) shp"
    using assms(2) by (simp add: reset_box_def)
  from parse_shapes_ok[OF this, of ext] show ?thesis
    using assms(1) by (simp add: parse_scene_def Let_def reset_box_def built_frame)
qed

lemma parse_scene_tables:
  assumes "parse_scene ext rand s = Inr s'"
  obtains cols where "get_uniform_sampled_colors rand (original_num_shapes (obj_m s)) = Inr cols"
    and "\<forall>shp \<in> set (shapes (obj_m s)). shape_ok cols (materials (obj_m s)) shp"
    and "mesh_m s' = mesh_m s @ map (new_mesh ext) (shapes (obj_m s))"
    and "materials_m s' = materials_m s @
           map (material_desc ext (background_color_m s) cols) (shapes (obj_m s))"
    and "materials (obj_m s') = materials (obj_m s)"
proof -
  from parse_scene_Inr[OF assms] obtain cols where
    c: "get_uniform_sampled_colors rand (original_num_shapes (obj_m s)) = Inr cols"
    and ok: "\<forall>shp \<in> set (shapes (obj_m s)). shape_ok cols (materials (obj_m s)) shp"
    and s': "s' = (built ext cols (shapes (obj_m s)) (reset_box s))\<lparr>obj_m := (obj_m s)\<lparr>shapes := []\<rparr>\<rparr>"
    by blast
  have "mesh_m s' = mesh_m s @ map (new_mesh ext) (shapes (obj_m s))"
    and "materials_m s' = materials_m s @
           map (material_desc ext (background_color_m s) cols) (shapes (obj_m s))"
    and "materials (obj_m s') = materials (obj_m s)"
    unfolding s' by (simp_all add: built_def reset_box_def)
  with c ok show thesis using that by blast
qed

lemma filter_models_frame:
  "original_num_shapes (obj_m (filter_models fs bl s)) = original_num_shapes (obj_m s)"
  "materials (obj_m (filter_models fs bl s)) = materials (obj_m s)"
  "materials_m (filter_models fs bl s) = materials_m s"
  "mesh_m (filter_models fs bl s) = mesh_m s"
  "background_color_m (filter_models fs bl s) = background_color_m s"
  by (simp_all add: filter_models_def print_debug_def Let_def split: option.splits)

lemma example_build: "parse_scene example_ext (\<lambda>k. k) example_filtered = Inr example_built"
proof -
  have "\<not> isl (parse_scene example_ext (\<lambda>k. k) example_filtered)" by code_simp
  then show ?thesis by (simp add: example_built_def)
qed

lemma example_retained:
  "shapes (obj_m example_filtered) =
     [\<lparr>name = ''Model#5'', original_index = 0, mesh = triangle 1 [0]\<rparr>,
      \<lparr>name = ''Ground'', original_index = 2, mesh = triangle 3 [1]\<rparr>,
      \<lparr>name = ''WallInside#1'', original_index = 3, mesh = triangle 4 [0, 0]\<rparr>]"
  by (simp add: example_filtered_def filter_models_def example_fs_def example_scene_def)

subsection \<open>Unresolvable names\<close>

text \<open>
  Claim C6. A name with no \<^verbatim>\<open>Model#\<close> prefix, other than \<^verbatim>\<open>Ground\<close> and without
  \<^verbatim>\<open>#\<close> resolves to the background colour and one diagnostic line. The failure is
  not fatal: a shape of that name that passes the builder's other checks is built as
  any other, its descriptor carrying the background colour as label colour.
\<close>

theorem resolver_fallback:
  assumes "\<not> prefix ''Model#'' nm" and "nm \<noteq> ''Ground''" and "CHR ''#'' \<notin> set nm"
  shows "get_color_by_shape_name ext bg nm =
           (bg, [''Failed to get color for shape '' @ nm @ [CHR 0x0A]]) \<and>
         (\<forall>cols s shp. name shp = nm \<and> shape_ok cols (materials (obj_m s)) shp \<longrightarrow>
            (\<exists>s'. parse_shape ext cols s shp = Inr s' \<and>
                  label_color (last (materials_m s')) = background_color_m s \<and>
                  diagnostics s' = diagnostics s @
                    [''Failed to get color for shape '' @ nm @ [CHR 0x0A]]))"
proof -
  have r: "get_color_by_shape_name ext bg nm =
           (bg, [''Failed to get color for shape '' @ nm @ [CHR 0x0A]])" for bg
    using assms by (simp add: get_color_by_shape_name_def print_debug_def find_str_Some_0 find_char_None)
  have "\<exists>s'. parse_shape ext cols s shp = Inr s' \<and>
                  label_color (last (materials_m s')) = background_color_m s \<and>
                  diagnostics s' = diagnostics s @
                    [''Failed to get color for shape '' @ nm @ [CHR 0x0A]]"
    if "name shp = nm" "shape_ok cols (materials (obj_m s)) shp" for cols s shp
    using parse_shape_Inr[OF that(2), of ext] that(1)
    by (simp add: material_desc_def r)
  then show ?thesis using r by blast
qed

theorem resolver_fallback_witness:
  "\<not> prefix ''Model#'' ''garbage'' \<and> ''garbage'' \<noteq> ''Ground'' \<and> CHR ''#'' \<notin> set ''garbage'' \<and>
   get_color_by_shape_name example_ext (Vec3 (1/2) (1/2) (1/2)) ''garbage'' =
     (Vec3 (1/2) (1/2) (1/2), [''Failed to get color for shape garbage'' @ [CHR 0x0A]]) \<and>
   name garbage_shape = ''garbage'' \<and>
   shape_ok [Vec3 0 0 0] (materials (obj_m example_scene)) garbage_shape \<and>
   (\<exists>s'. parse_shape example_ext [Vec3 0 0 0] example_scene garbage_shape = Inr s' \<and>
      label_color (last (materials_m s')) = Vec3 (1/2) (1/2) (1/2) \<and>
      diagnostics s' = [''Failed to get color for shape garbage'' @ [CHR 0x0A]])"
proof -
  have h: "\<not> prefix ''Model#'' ''garbage''" "''garbage'' \<noteq> ''Ground''"
    "CHR ''#'' \<notin> set ''garbage''"
    by simp_all
  have n: "name garbage_shape = ''garbage''" by (simp add: garbage_shape_def)
  have ok: "shape_ok [Vec3 0 0 0] (materials (obj_m example_scene)) garbage_shape"
    by (simp add: shape_ok_def garbage_shape_def example_scene_def triangle_def)
  have bg: "background_color_m example_scene = Vec3 (1/2) (1/2) (1/2)"
    "diagnostics example_scene = []"
    by (simp_all add: example_scene_def)
  from resolver_fallback[OF h, of example_ext "Vec3 (1/2) (1/2) (1/2)"]
  show ?thesis using n ok bg h by fastforce
qed

subsection \<open>Instance colours\<close>

text \<open>
  Claim C3. After any blacklist filtering, a build that returns has given each retained
  shape the entry of the palette at the shape's original index, the palette being the
  allocator's result for the original (pre-filter) number of shapes. The position of
  the shape among the retained ones plays no part.
\<close>

theorem instance_color_by_original_index:
  assumes "parse_scene ext rand (filter_models fs blacklist s) = Inr s'"
  shows "\<exists>palette. get_uniform_sampled_colors rand (original_num_shapes (obj_m s)) = Inr palette \<and>
     (let retained = shapes (obj_m (filter_models fs blacklist s)); n = length (materials_m s) in
        length (materials_m s') = n + length retained \<and>
        (\<forall>i < length retained.
           original_index (retained ! i) < length palette \<and>
           instance_color (materials_m s' ! (n + i)) = palette ! original_index (retained ! i)))"
proof -
  let ?f = "filter_models fs blacklist s"
  from parse_scene_tables[OF assms] obtain cols where
    c: "get_uniform_sampled_colors rand (original_num_shapes (obj_m ?f)) = Inr cols"
    and ok: "\<forall>shp \<in> set (shapes (obj_m ?f)). shape_ok cols (materials (obj_m ?f)) shp"
    and mats: "materials_m s' = materials_m ?f @
           map (material_desc ext (background_color_m ?f) cols) (shapes (obj_m ?f))"
    by blast
  have len: "length (materials_m s') = length (materials_m s) + length (shapes (obj_m ?f))"
    using mats by (simp add: filter_models_frame)
  have each: "original_index (shapes (obj_m ?f) ! i) < length cols \<and>
      instance_color (materials_m s' ! (length (materials_m s) + i)) =
        cols ! original_index (shapes (obj_m ?f) ! i)"
    if "i < length (shapes (obj_m ?f))" for i
  proof -
    have "shapes (obj_m ?f) ! i \<in> set (shapes (obj_m ?f))" using that by simp
    then have "original_index (shapes (obj_m ?f) ! i) < length cols"
      using ok by (simp add: shape_ok_def)
    moreover have "materials_m s' ! (length (materials_m s) + i) =
        material_desc ext (background_color_m ?f) cols (shapes (obj_m ?f) ! i)"
      using that by (simp add: mats filter_models_frame nth_append)
    ultimately show ?thesis by (simp add: material_desc_def)
  qed
  show ?thesis
    using c len each by (auto simp add: filter_models_frame Let_def)
qed

theorem instance_color_by_original_index_witness:
  "parse_scene example_ext (\<lambda>k. k) (filter_models example_fs ''blacklist.txt'' example_scene) =
     Inr example_built \<and>
   map original_index (shapes (obj_m example_scene)) = [0, 1, 2, 3] \<and>
   map original_index (shapes (obj_m (filter_models example_fs ''blacklist.txt'' example_scene))) =
     [0, 2, 3] \<and>
   (\<exists>palette. get_uniform_sampled_colors (\<lambda>k. k) 4 = Inr palette \<and>
      length (materials_m example_built) = 3 \<and>
      instance_color (materials_m example_built ! 0) = palette ! 0 \<and>
      instance_color (materials_m example_built ! 1) = palette ! 2 \<and>
      instance_color (materials_m example_built ! 2) = palette ! 3)"
proof -
  have b: "parse_scene example_ext (\<lambda>k. k)
      (filter_models example_fs ''blacklist.txt'' example_scene) = Inr example_built"
    using example_build by (simp add: example_filtered_def)
  have o: "map original_index (shapes (obj_m example_scene)) = [0, 1, 2, 3]"
    by (simp add: example_scene_def)
  have n: "original_num_shapes (obj_m example_scene) = 4" "materials_m example_scene = []"
    by (simp_all add: example_scene_def)
  from instance_color_by_original_index[OF b] show ?thesis
    using b o example_retained
    by (auto simp add: n Let_def example_filtered_def eval_nat_numeral All_less_Suc)
qed

subsection \<open>The assertions of the builder\<close>

text \<open>
  The builder does not compare the material ids of a shape's faces: a shape with two
  faces of material ids 0 and 1 is built, under the id 0.
\<close>

theorem two_materials_not_asserted:
  "material_ids (mesh (hd (shapes (obj_m two_material_scene)))) = [0, 1] \<and>
   \<not> isl (parse_scene example_ext (\<lambda>k. k) two_material_scene) \<and>
   map mat_id (materials_m (projr (parse_scene example_ext (\<lambda>k. k) two_material_scene))) = [0] \<and>
   length (mesh_m (projr (parse_scene example_ext (\<lambda>k. k) two_material_scene))) = 1"
  by code_simp

lemma parse_shape_assert_iff:
  assumes "original_index shp < length cols"
  shows "(parse_shape ext cols s shp = Inl AssertionFailed) =
         (length (material_ids (mesh shp)) \<noteq> length (num_face_vertices (mesh shp)) \<or>
          length (num_face_vertices (mesh shp)) = 0)"
  using assms by (auto simp add: parse_shape_def m_assert_def Let_def split_beta)

lemma parse_scene_bad_shape:
  assumes "shp \<in> set (shapes (obj_m s))"
    and "length (material_ids (mesh shp)) \<noteq> length (num_face_vertices (mesh shp)) \<or>
         length (num_face_vertices (mesh shp)) = 0"
  shows "isl (parse_scene ext rand s)"
proof (cases "parse_scene ext rand s")
  case (Inl e)
  then show ?thesis by simp
next
  case (Inr s')
  from parse_scene_Inr[OF Inr] obtain cols where
    "\<forall>x \<in> set (shapes (obj_m s)). shape_ok cols (materials (obj_m s)) x" by blast
  then have "shape_ok cols (materials (obj_m s)) shp" using assms(1) by blast
  then show ?thesis using assms(2) by (auto simp add: shape_ok_def)
qed

lemma parse_shape_first_material:
  assumes "parse_shape ext cols s shp = Inr s'"
  shows "mat_id (last (materials_m s')) = material_ids (mesh shp) ! 0"
proof -
  have ok: "shape_ok cols (materials (obj_m s)) shp"
    using parse_shape_Inl[of cols s shp ext] assms by fastforce
  from parse_shape_Inr[OF ok, of ext] assms show ?thesis
    by (auto simp add: material_desc_def)
qed

lemma parse_shape_passing:
  assumes "original_index shp < length cols"
    and "length (material_ids (mesh shp)) = length (num_face_vertices (mesh shp))"
    and "0 < length (num_face_vertices (mesh shp))"
    and "0 \<le> material_ids (mesh shp) ! 0"
    and "nat (material_ids (mesh shp) ! 0) < length (materials (obj_m s))"
  shows "\<exists>s'. parse_shape ext cols s shp = Inr s' \<and>
           mesh_m s' = mesh_m s @ [new_mesh ext shp] \<and>
           materials_m s' = materials_m s @ [material_desc ext (background_color_m s) cols shp] \<and>
           mat_id (last (materials_m s')) = material_ids (mesh shp) ! 0"
proof -
  have ok: "shape_ok cols (materials (obj_m s)) shp"
    using assms by (simp add: shape_ok_def)
  show ?thesis
    by (simp add: parse_shape_Inr[OF ok] material_desc_def)
qed

lemma parse_scene_first_materials:
  assumes "get_uniform_sampled_colors rand (original_num_shapes (obj_m s)) = Inr cols"
    and "\<forall>shp \<in> set (shapes (obj_m s)). shape_ok cols (materials (obj_m s)) shp"
  shows "\<exists>s'. parse_scene ext rand s = Inr s' \<and>
           map mat_id (materials_m s') =
             map mat_id (materials_m s) @ map (\<lambda>shp. material_ids (mesh shp) ! 0) (shapes (obj_m s)) \<and>
           length (mesh_m s') = length (mesh_m s) + length (shapes (obj_m s))"
  by (simp add: parse_scene_ok[OF assms] built_def reset_box_def material_desc_def comp_def)

lemma one_color: "get_uniform_sampled_colors (\<lambda>k. k) 1 = Inr [Vec3 (1/3) (1/3) (1/3)]"
  by code_simp

text \<open>
  Claim C4, amended. The two assertions of the builder are on the number of faces. For
  a shape whose \<^verbatim>\<open>original_index\<close> lies within the palette:

  \<^item> it fails an assertion exactly when its list of material ids is not as long as its
    list of faces, or it has no face, and a scene that holds such a shape is not built;
  \<^item> if it passes both checks and the material id of its first face is an index of
    \<^verbatim>\<open>obj_.materials\<close>, it is built: one mesh and one descriptor are appended, the
    descriptor under the material id of the first face, whatever the ids of the other
    faces;
  \<^item> a scene whose shapes all are of that kind is built, the descriptors carrying the
    first material ids of the shapes, in order.
\<close>

theorem builder_assertions:
  assumes "original_index shp < length cols"
  shows "((parse_shape ext cols s shp = Inl AssertionFailed) =
            (length (material_ids (mesh shp)) \<noteq> length (num_face_vertices (mesh shp)) \<or>
             length (num_face_vertices (mesh shp)) = 0)) \<and>
         (shp \<in> set (shapes (obj_m s0)) \<and>
            (length (material_ids (mesh shp)) \<noteq> length (num_face_vertices (mesh shp)) \<or>
             length (num_face_vertices (mesh shp)) = 0) \<longrightarrow>
            isl (parse_scene ext rand s0)) \<and>
         (\<forall>s'. parse_shape ext cols s shp = Inr s' \<longrightarrow>
            mat_id (last (materials_m s')) = material_ids (mesh shp) ! 0) \<and>
         (length (material_ids (mesh shp)) = length (num_face_vertices (mesh shp)) \<and>
          0 < length (num_face_vertices (mesh shp)) \<and>
          0 \<le> material_ids (mesh shp) ! 0 \<and>
          nat (material_ids (mesh shp) ! 0) < length (materials (obj_m s)) \<longrightarrow>
            (\<exists>s'. parse_shape ext cols s shp = Inr s' \<and>
                  mesh_m s' = mesh_m s @ [new_mesh ext shp] \<and>
                  materials_m s' =
                    materials_m s @ [material_desc ext (background_color_m s) cols shp] \<and>
                  mat_id (last (materials_m s')) = material_ids (mesh shp) ! 0)) \<and>
         (get_uniform_sampled_colors rand (original_num_shapes (obj_m s0)) = Inr palette \<and>
          (\<forall>x \<in> set (shapes (obj_m s0)). shape_ok palette (materials (obj_m s0)) x) \<longrightarrow>
            (\<exists>s'. parse_scene ext rand s0 = Inr s' \<and>
                  map mat_id (materials_m s') =
                    map mat_id (materials_m s0) @
                    map (\<lambda>x. material_ids (mesh x) ! 0) (shapes (obj_m s0)) \<and>
                  length (mesh_m s') = length (mesh_m s0) + length (shapes (obj_m s0))))"
proof -
  note a = parse_shape_assert_iff[OF assms, of ext s]
  have b: "shp \<in> set (shapes (obj_m s0)) \<and>
            (length (material_ids (mesh shp)) \<noteq> length (num_face_vertices (mesh shp)) \<or>
             length (num_face_vertices (mesh shp)) = 0) \<longrightarrow>
            isl (parse_scene ext rand s0)"
    using parse_scene_bad_shape by blast
  have c: "\<forall>s'. parse_shape ext cols s shp = Inr s' \<longrightarrow>
            mat_id (last (materials_m s')) = material_ids (mesh shp) ! 0"
    using parse_shape_first_material by blast
  have d: "length (material_ids (mesh shp)) = length (num_face_vertices (mesh shp)) \<and>
          0 < length (num_face_vertices (mesh shp)) \<and>
          0 \<le> material_ids (mesh shp) ! 0 \<and>
          nat (material_ids (mesh shp) ! 0) < length (materials (obj_m s)) \<longrightarrow>
            (\<exists>s'. parse_shape ext cols s shp = Inr s' \<and>
                  mesh_m s' = mesh_m s @ [new_mesh ext shp] \<and>
                  materials_m s' =
                    materials_m s @ [material_desc ext (background_color_m s) cols shp] \<and>
                  mat_id (last (materials_m s')) = material_ids (mesh shp) ! 0)"
    using parse_shape_passing[OF assms] by blast
  have e: "get_uniform_sampled_colors rand (original_num_shapes (obj_m s0)) = Inr palette \<and>
          (\<forall>x \<in> set (shapes (obj_m s0)). shape_ok palette (materials (obj_m s0)) x) \<longrightarrow>
            (\<exists>s'. parse_scene ext rand s0 = Inr s' \<and>
                  map mat_id (materials_m s') =
                    map mat_id (materials_m s0) @
                    map (\<lambda>x. material_ids (mesh x) ! 0) (shapes (obj_m s0)) \<and>
                  length (mesh_m s') = length (mesh_m s0) + length (shapes (obj_m s0)))"
    using parse_scene_first_materials by blast
  show ?thesis using a b c d e by blast
qed

theorem builder_assertions_witness:
  "original_index zero_face_shape < length [Vec3 0 0 0] \<and>
   length (num_face_vertices (mesh zero_face_shape)) = 0 \<and>
   parse_shape example_ext [Vec3 0 0 0] example_scene zero_face_shape = Inl AssertionFailed \<and>
   zero_face_shape \<in> set (shapes (obj_m (example_scene\<lparr>obj_m := (obj_m example_scene)\<lparr>shapes :=
      [zero_face_shape]\<rparr>\<rparr>))) \<and>
   isl (parse_scene example_ext (\<lambda>k. k)
      (example_scene\<lparr>obj_m := (obj_m example_scene)\<lparr>shapes := [zero_face_shape]\<rparr>\<rparr>)) \<and>
   original_index two_material_shape < length [Vec3 (1/3) (1/3) (1/3)] \<and>
   material_ids (mesh two_material_shape) = [0, 1] \<and>
   length (num_face_vertices (mesh two_material_shape)) = 2 \<and>
   nat (material_ids (mesh two_material_shape) ! 0) < length (materials (obj_m example_scene)) \<and>
   (\<exists>s'. parse_shape example_ext [Vec3 (1/3) (1/3) (1/3)] example_scene two_material_shape = Inr s' \<and>
         mat_id (last (materials_m s')) = 0 \<and>
         length (mesh_m s') = 1 \<and>
         length (vertices (last (mesh_m s'))) = 6) \<and>
   get_uniform_sampled_colors (\<lambda>k. k) (original_num_shapes (obj_m two_material_scene)) =
     Inr [Vec3 (1/3) (1/3) (1/3)] \<and>
   shapes (obj_m two_material_scene) = [two_material_shape] \<and>
   shape_ok [Vec3 (1/3) (1/3) (1/3)] (materials (obj_m two_material_scene)) two_material_shape \<and>
   (\<exists>s'. parse_scene example_ext (\<lambda>k. k) two_material_scene = Inr s' \<and>
         map mat_id (materials_m s') = [0] \<and> length (mesh_m s') = 1)"
proof -
  have h: "original_index zero_face_shape < length [Vec3 0 0 0]"
    by (simp add: zero_face_shape_def)
  have z: "length (num_face_vertices (mesh zero_face_shape)) = 0"
    by (simp add: zero_face_shape_def triangle_def)
  have h2: "original_index two_material_shape < length [Vec3 (1/3) (1/3) (1/3)]"
    by (simp add: two_material_shape_def)
  have m: "material_ids (mesh two_material_shape) = [0, 1]"
    "length (num_face_vertices (mesh two_material_shape)) = 2"
    by (simp_all add: two_material_shape_def triangle_def)
  have t: "materials (obj_m example_scene) = materials (obj_m two_material_scene)"
    "length (materials (obj_m example_scene)) = 2"
    "mesh_m example_scene = []" "materials_m two_material_scene = []"
    "mesh_m two_material_scene = []"
    "original_num_shapes (obj_m two_material_scene) = 1"
    "shapes (obj_m two_material_scene) = [two_material_shape]"
    by (simp_all add: example_scene_def two_material_scene_def two_material_shape_def)
  have ok: "shape_ok [Vec3 (1/3) (1/3) (1/3)] (materials (obj_m two_material_scene)) two_material_shape"
    using h2 m t by (simp add: shape_ok_def)
  have v: "length (vertices (new_mesh example_ext two_material_shape)) = 6"
    by (simp add: new_mesh_def shape_vertices_def two_material_shape_def triangle_def
        example_ext_def upt_rec[of 0] upt_rec[of 1])
  from builder_assertions[OF h, of example_ext example_scene
      "example_scene\<lparr>obj_m := (obj_m example_scene)\<lparr>shapes := [zero_face_shape]\<rparr>\<rparr>" "\<lambda>k. k"]
  have first: "parse_shape example_ext [Vec3 0 0 0] example_scene zero_face_shape = Inl AssertionFailed \<and>
     isl (parse_scene example_ext (\<lambda>k. k)
      (example_scene\<lparr>obj_m := (obj_m example_scene)\<lparr>shapes := [zero_face_shape]\<rparr>\<rparr>))"
    using z by simp
  from builder_assertions[OF h2, of example_ext example_scene two_material_scene "\<lambda>k. k"
      "[Vec3 (1/3) (1/3) (1/3)]"]
  have second: "(\<exists>s'. parse_shape example_ext [Vec3 (1/3) (1/3) (1/3)] example_scene two_material_shape = Inr s' \<and>
         mat_id (last (materials_m s')) = 0 \<and>
         length (mesh_m s') = 1 \<and>
         length (vertices (last (mesh_m s'))) = 6) \<and>
     (\<exists>s'. parse_scene example_ext (\<lambda>k. k) two_material_scene = Inr s' \<and>
         map mat_id (materials_m s') = [0] \<and> length (mesh_m s') = 1)"
    using one_color ok m t v by auto
  show ?thesis using h z h2 m t one_color ok first second by simp
qed

subsection \<open>Meshes and material descriptors\<close>

lemma activate_loop_error:
  "activate_loop ext is s = Inl e \<Longrightarrow> e = OutOfRange"
  by (induction ext "is" s rule: activate_loop.induct) (auto simp: Let_def split: if_splits)

lemma activate_not_assert:
  assumes "length (mesh_m s) = length (materials_m s)"
  shows "activate ext s \<noteq> Inl AssertionFailed"
  using assms activate_loop_error[of ext "[0..<length (mesh_m s)]" s AssertionFailed]
  by (auto simp add: activate_def m_assert_def Let_def)

text \<open>
  Claim C8. A build that starts with as many meshes as descriptors (none, in the
  constructor) ends with as many of each, having appended exactly one mesh and one
  descriptor per shape, at the same index and in the order of the shapes: the mesh holds
  the shape's vertices, the descriptor its first material id and its label colour. The
  assertion of \<^verbatim>\<open>activate\<close> on the two lengths then holds.
\<close>

theorem mesh_material_aligned:
  assumes "parse_scene ext rand s = Inr s'" and "length (mesh_m s) = length (materials_m s)"
  shows "length (mesh_m s') = length (materials_m s') \<and>
         length (mesh_m s') = length (mesh_m s) + length (shapes (obj_m s)) \<and>
         take (length (mesh_m s)) (mesh_m s') = mesh_m s \<and>
         take (length (materials_m s)) (materials_m s') = materials_m s \<and>
         (\<forall>i < length (shapes (obj_m s)).
            vertices (mesh_m s' ! (length (mesh_m s) + i)) =
              shape_vertices ext (shapes (obj_m s) ! i) \<and>
            mat_id (materials_m s' ! (length (mesh_m s) + i)) =
              material_ids (mesh (shapes (obj_m s) ! i)) ! 0 \<and>
            label_color (materials_m s' ! (length (mesh_m s) + i)) =
              fst (get_color_by_shape_name ext (background_color_m s) (name (shapes (obj_m s) ! i)))) \<and>
         activate ext s' \<noteq> Inl AssertionFailed"
proof -
  from parse_scene_tables[OF assms(1)] obtain cols where
    mesh: "mesh_m s' = mesh_m s @ map (new_mesh ext) (shapes (obj_m s))"
    and mats: "materials_m s' = materials_m s @
           map (material_desc ext (background_color_m s) cols) (shapes (obj_m s))"
    by blast
  have len: "length (mesh_m s') = length (materials_m s')"
    using assms(2) by (simp add: mesh mats)
  have grow: "length (mesh_m s') = length (mesh_m s) + length (shapes (obj_m s))"
    by (simp add: mesh)
  have keep: "take (length (mesh_m s)) (mesh_m s') = mesh_m s"
    "take (length (materials_m s)) (materials_m s') = materials_m s"
    by (simp_all add: mesh mats)
  have each: "vertices (mesh_m s' ! (length (mesh_m s) + i)) =
              shape_vertices ext (shapes (obj_m s) ! i) \<and>
            mat_id (materials_m s' ! (length (mesh_m s) + i)) =
              material_ids (mesh (shapes (obj_m s) ! i)) ! 0 \<and>
            label_color (materials_m s' ! (length (mesh_m s) + i)) =
              fst (get_color_by_shape_name ext (background_color_m s) (name (shapes (obj_m s) ! i)))"
    if "i < length (shapes (obj_m s))" for i
    using that assms(2) by (simp add: mesh mats nth_append new_mesh_def material_desc_def)
  from activate_not_assert[OF len] have act: "activate ext s' \<noteq> Inl AssertionFailed" .
  show ?thesis using len grow keep each act by blast
qed

theorem mesh_material_aligned_witness:
  "parse_scene example_ext (\<lambda>k. k) example_filtered = Inr example_built \<and>
   length (mesh_m example_filtered) = length (materials_m example_filtered) \<and>
   length (mesh_m example_built) = length (materials_m example_built) \<and>
   length (mesh_m example_built) = 3 \<and>
   map mat_id (materials_m example_built) = [0, 1, 0] \<and>
   map (\<lambda>m. length (vertices m)) (mesh_m example_built) = [3, 3, 6] \<and>
   activate example_ext example_built \<noteq> Inl AssertionFailed"
proof -
  have l: "length (mesh_m example_filtered) = length (materials_m example_filtered)"
    by code_simp
  have e: "map mat_id (materials_m example_built) = [0, 1, 0]"
    "map (\<lambda>m. length (vertices m)) (mesh_m example_built) = [3, 3, 6]"
    by code_simp+
  have n: "length (shapes (obj_m example_filtered)) = 3" "length (mesh_m example_filtered) = 0"
    by code_simp+
  from mesh_material_aligned[OF example_build l] show ?thesis
    using example_build l e n by simp
qed

subsection \<open>The bounding box\<close>

lemma fold_min_Min:
  "fold (\<lambda>v (b::real). min b (f v)) vs b0 = Min (insert b0 (f ` set vs))"
proof (induction vs arbitrary: b0)
  case Nil
  show ?case by simp
next
  case (Cons v vs)
  have "Min (insert (min b0 (f v)) (f ` set vs)) = Min (insert b0 (insert (f v) (f ` set vs)))"
    by (cases "vs = []") (simp_all add: min.assoc)
  then show ?case by (simp add: Cons.IH)
qed

lemma fold_max_Max:
  "fold (\<lambda>v (b::real). max b (f v)) vs b0 = Max (insert b0 (f ` set vs))"
proof (induction vs arbitrary: b0)
  case Nil
  show ?case by simp
next
  case (Cons v vs)
  have "Max (insert (max b0 (f v)) (f ` set vs)) = Max (insert b0 (insert (f v) (f ` set vs)))"
    by (cases "vs = []") (simp_all add: max.assoc)
  then show ?case by (simp add: Cons.IH)
qed

lemma box_min_components:
  "vx (box_min vs b) = fold (\<lambda>v m. min m (vx (pos v))) vs (vx b)"
  "vy (box_min vs b) = fold (\<lambda>v m. min m (vy (pos v))) vs (vy b)"
  "vz (box_min vs b) = fold (\<lambda>v m. min m (vz (pos v))) vs (vz b)"
  unfolding box_min_def by (induction vs arbitrary: b) (simp_all add: vec3_min_def)

lemma box_max_components:
  "vx (box_max vs b) = fold (\<lambda>v m. max m (vx (pos v))) vs (vx b)"
  "vy (box_max vs b) = fold (\<lambda>v m. max m (vy (pos v))) vs (vy b)"
  "vz (box_max vs b) = fold (\<lambda>v m. max m (vz (pos v))) vs (vz b)"
  unfolding box_max_def by (induction vs arbitrary: b) (simp_all add: vec3_max_def)

lemma Min_sentinel:
  assumes "finite A" "A \<noteq> {}" "\<forall>a \<in> A. a \<le> (t::real)"
  shows "Min (insert t A) = Min A"
  using assms by (simp add: min_absorb2)

lemma Max_sentinel:
  assumes "finite A" "A \<noteq> {}" "\<forall>a \<in> A. (b::real) \<le> a"
  shows "Max (insert b A) = Max A"
  using assms by (simp add: max_absorb2)

lemma Min_le_Max_sentinel:
  assumes "finite A" "A \<noteq> {}"
  shows "Min (insert (t::real) A) \<le> Max (insert b A)"
proof -
  obtain a where a: "a \<in> A" using assms(2) by blast
  have "Min (insert t A) \<le> a" using assms(1) a by simp
  moreover have "a \<le> Max (insert b A)" using assms(1) a by simp
  ultimately show ?thesis by simp
qed

lemma parse_scene_box:
  assumes "parse_scene ext rand s = Inr s'"
  shows "boxmin_m s' =
           box_min (retained_vertices ext (shapes (obj_m s))) (Vec3 FLT_MAX FLT_MAX FLT_MAX)"
    and "boxmax_m s' =
           box_max (retained_vertices ext (shapes (obj_m s))) (Vec3 FLT_LOWEST FLT_LOWEST FLT_LOWEST)"
  using parse_scene_Inr[OF assms]
  by (auto simp add: built_def reset_box_def retained_vertices_def)

lemma box_nonempty_le:
  assumes "vs \<noteq> []"
  shows "vx (box_min vs t) \<le> vx (box_max vs b)"
    and "vy (box_min vs t) \<le> vy (box_max vs b)"
    and "vz (box_min vs t) \<le> vz (box_max vs b)"
  unfolding box_min_components box_max_components fold_min_Min fold_max_Max
  by (rule Min_le_Max_sentinel; use assms in simp)+

lemma box_min_sel:
  assumes "vs \<noteq> []" "\<forall>v \<in> set vs. in_float_range (pos v)"
  shows "vx (box_min vs (Vec3 FLT_MAX FLT_MAX FLT_MAX)) = Min ((\<lambda>v. vx (pos v)) ` set vs)"
    and "vy (box_min vs (Vec3 FLT_MAX FLT_MAX FLT_MAX)) = Min ((\<lambda>v. vy (pos v)) ` set vs)"
    and "vz (box_min vs (Vec3 FLT_MAX FLT_MAX FLT_MAX)) = Min ((\<lambda>v. vz (pos v)) ` set vs)"
  unfolding box_min_components fold_min_Min vec3.sel
  by (rule Min_sentinel; use assms in \<open>auto simp: in_float_range_def\<close>)+

lemma box_max_sel:
  assumes "vs \<noteq> []" "\<forall>v \<in> set vs. in_float_range (pos v)"
  shows "vx (box_max vs (Vec3 FLT_LOWEST FLT_LOWEST FLT_LOWEST)) = Max ((\<lambda>v. vx (pos v)) ` set vs)"
    and "vy (box_max vs (Vec3 FLT_LOWEST FLT_LOWEST FLT_LOWEST)) = Max ((\<lambda>v. vy (pos v)) ` set vs)"
    and "vz (box_max vs (Vec3 FLT_LOWEST FLT_LOWEST FLT_LOWEST)) = Max ((\<lambda>v. vz (pos v)) ` set vs)"
  unfolding box_max_components fold_max_Max vec3.sel
  by (rule Max_sentinel; use assms in \<open>auto simp: in_float_range_def\<close>)+

lemma box_min_union:
  assumes "vs \<noteq> []" "\<forall>v \<in> set vs. in_float_range (pos v)"
  shows "box_min vs (Vec3 FLT_MAX FLT_MAX FLT_MAX) =
     Vec3 (Min ((\<lambda>v. vx (pos v)) ` set vs)) (Min ((\<lambda>v. vy (pos v)) ` set vs))
          (Min ((\<lambda>v. vz (pos v)) ` set vs))"
  by (rule vec3.expand) (simp only: box_min_sel[OF assms] vec3.sel simp_thms)

lemma box_max_union:
  assumes "vs \<noteq> []" "\<forall>v \<in> set vs. in_float_range (pos v)"
  shows "box_max vs (Vec3 FLT_LOWEST FLT_LOWEST FLT_LOWEST) =
     Vec3 (Max ((\<lambda>v. vx (pos v)) ` set vs)) (Max ((\<lambda>v. vy (pos v)) ` set vs))
          (Max ((\<lambda>v. vz (pos v)) ` set vs))"
  by (rule vec3.expand) (simp only: box_max_sel[OF assms] vec3.sel simp_thms)

text \<open>
  Claim C9. After a build that returns: if at least one vertex was added then
  \<open>boxmin \<le> boxmax\<close> in every component and, the positions being \<^verbatim>\<open>float\<close> values,
  \<open>boxmin\<close> and \<open>boxmax\<close> are the componentwise minimum and maximum of the positions of
  all retained vertices; if none was added, \<open>boxmin\<close> is \<^verbatim>\<open>float\<close> max and \<open>boxmax\<close> is
  \<^verbatim>\<open>float\<close> lowest in every component, so \<open>boxmin > boxmax\<close>.
\<close>

theorem bounding_box_union:
  assumes "parse_scene ext rand s = Inr s'"
  shows "(let vs = retained_vertices ext (shapes (obj_m s)) in
          (vs \<noteq> [] \<longrightarrow>
             vx (boxmin_m s') \<le> vx (boxmax_m s') \<and>
             vy (boxmin_m s') \<le> vy (boxmax_m s') \<and>
             vz (boxmin_m s') \<le> vz (boxmax_m s') \<and>
             ((\<forall>v \<in> set vs. in_float_range (pos v)) \<longrightarrow>
                boxmin_m s' = Vec3 (Min ((\<lambda>v. vx (pos v)) ` set vs))
                                   (Min ((\<lambda>v. vy (pos v)) ` set vs))
                                   (Min ((\<lambda>v. vz (pos v)) ` set vs)) \<and>
                boxmax_m s' = Vec3 (Max ((\<lambda>v. vx (pos v)) ` set vs))
                                   (Max ((\<lambda>v. vy (pos v)) ` set vs))
                                   (Max ((\<lambda>v. vz (pos v)) ` set vs)))) \<and>
          (vs = [] \<longrightarrow>
             boxmin_m s' = Vec3 FLT_MAX FLT_MAX FLT_MAX \<and>
             boxmax_m s' = Vec3 FLT_LOWEST FLT_LOWEST FLT_LOWEST \<and>
             vx (boxmax_m s') < vx (boxmin_m s') \<and>
             vy (boxmax_m s') < vy (boxmin_m s') \<and>
             vz (boxmax_m s') < vz (boxmin_m s')))"
proof -
  let ?vs = "retained_vertices ext (shapes (obj_m s))"
  note box = parse_scene_box[OF assms]
  have le: "vx (boxmin_m s') \<le> vx (boxmax_m s') \<and> vy (boxmin_m s') \<le> vy (boxmax_m s') \<and>
            vz (boxmin_m s') \<le> vz (boxmax_m s')" if "?vs \<noteq> []"
    unfolding box using box_nonempty_le[OF that] by blast
  have un: "boxmin_m s' = Vec3 (Min ((\<lambda>v. vx (pos v)) ` set ?vs))
                                   (Min ((\<lambda>v. vy (pos v)) ` set ?vs))
                                   (Min ((\<lambda>v. vz (pos v)) ` set ?vs)) \<and>
            boxmax_m s' = Vec3 (Max ((\<lambda>v. vx (pos v)) ` set ?vs))
                                   (Max ((\<lambda>v. vy (pos v)) ` set ?vs))
                                   (Max ((\<lambda>v. vz (pos v)) ` set ?vs))"
    if "?vs \<noteq> []" "\<forall>v \<in> set ?vs. in_float_range (pos v)"
    unfolding box using box_min_union[OF that] box_max_union[OF that] by simp
  have em: "boxmin_m s' = Vec3 FLT_MAX FLT_MAX FLT_MAX \<and>
             boxmax_m s' = Vec3 FLT_LOWEST FLT_LOWEST FLT_LOWEST \<and>
             vx (boxmax_m s') < vx (boxmin_m s') \<and>
             vy (boxmax_m s') < vy (boxmin_m s') \<and>
             vz (boxmax_m s') < vz (boxmin_m s')" if "?vs = []"
    unfolding box using that by (simp add: box_min_def box_max_def FLT_MAX_def FLT_LOWEST_def)
  show ?thesis unfolding Let_def using le un em by blast
qed

theorem bounding_box_union_witness:
  "parse_scene example_ext (\<lambda>k. k) example_filtered = Inr example_built \<and>
   length (retained_vertices example_ext (shapes (obj_m example_filtered))) = 12 \<and>
   list_all (\<lambda>v. in_float_range (pos v))
     (retained_vertices example_ext (shapes (obj_m example_filtered))) \<and>
   boxmin_m example_built = Vec3 1 0 (- 4) \<and>
   boxmax_m example_built = Vec3 9 8 (- 1) \<and>
   parse_scene example_ext (\<lambda>k. k) empty_scene =
     Inr (projr (parse_scene example_ext (\<lambda>k. k) empty_scene)) \<and>
   retained_vertices example_ext (shapes (obj_m empty_scene)) = [] \<and>
   boxmin_m (projr (parse_scene example_ext (\<lambda>k. k) empty_scene)) = Vec3 FLT_MAX FLT_MAX FLT_MAX \<and>
   boxmax_m (projr (parse_scene example_ext (\<lambda>k. k) empty_scene)) =
     Vec3 FLT_LOWEST FLT_LOWEST FLT_LOWEST"
proof -
  let ?vs = "retained_vertices example_ext (shapes (obj_m example_filtered))"
  have len: "length ?vs = 12" by code_simp
  have rng: "list_all (\<lambda>v. in_float_range (pos v)) ?vs" by code_simp
  have mn: "Vec3 (Min ((\<lambda>v. vx (pos v)) ` set ?vs)) (Min ((\<lambda>v. vy (pos v)) ` set ?vs))
              (Min ((\<lambda>v. vz (pos v)) ` set ?vs)) = Vec3 1 0 (- 4)"
    by code_simp
  have mx: "Vec3 (Max ((\<lambda>v. vx (pos v)) ` set ?vs)) (Max ((\<lambda>v. vy (pos v)) ` set ?vs))
              (Max ((\<lambda>v. vz (pos v)) ` set ?vs)) = Vec3 9 8 (- 1)"
    by code_simp
  have ne: "?vs \<noteq> []" using len by auto
  have all: "\<forall>v \<in> set ?vs. in_float_range (pos v)" using rng by (simp add: list_all_iff)
  have full: "boxmin_m example_built = Vec3 1 0 (- 4) \<and> boxmax_m example_built = Vec3 9 8 (- 1)"
    using bounding_box_union[OF example_build] ne all mn mx by (simp add: Let_def)
  have "\<not> isl (parse_scene example_ext (\<lambda>k. k) empty_scene)" by code_simp
  then have eb: "parse_scene example_ext (\<lambda>k. k) empty_scene =
     Inr (projr (parse_scene example_ext (\<lambda>k. k) empty_scene))" by simp
  have ev: "retained_vertices example_ext (shapes (obj_m empty_scene)) = []" by code_simp
  have empty: "boxmin_m (projr (parse_scene example_ext (\<lambda>k. k) empty_scene)) =
       Vec3 FLT_MAX FLT_MAX FLT_MAX \<and>
     boxmax_m (projr (parse_scene example_ext (\<lambda>k. k) empty_scene)) =
       Vec3 FLT_LOWEST FLT_LOWEST FLT_LOWEST"
    using bounding_box_union[OF eb] ev by (simp add: Let_def)
  show ?thesis using example_build len rng full eb ev empty by blast
qed

section \<open>The fragment shader\<close>

text \<open>
  Claim C7. In mode 2 the fragment colour is \<open>(Kd, 1)\<close>: the flat colour with alpha 1.
  No other input enters: two fragments shaded in mode 2 with the same \<open>Kd\<close> get the same
  colour, whatever their positions, normals and texture coordinates, and whatever
  \<open>eye\<close>, \<open>Ka\<close>, \<open>dissolve\<close>, the texture and \<open>minDepth\<close> are.
\<close>

theorem constant_mode_flat_color:
  assumes "mode u = 2"
  shows "fShader_main fl fsqrt u p n tc z un = Vec4 (vx (Kd u)) (vy (Kd u)) (vz (Kd u)) 1 \<and>
         (\<forall>fl' fsqrt' u' p' n' tc' z' un'. mode u' = 2 \<and> Kd u' = Kd u \<longrightarrow>
            fShader_main fl' fsqrt' u' p' n' tc' z' un' = fShader_main fl fsqrt u p n tc z un)"
  using assms by (simp add: fShader_main_def vec4_of_def)

theorem constant_mode_flat_color_witness:
  "mode example_uniforms = 2 \<and>
   fShader_main fl_up sqrt_step example_uniforms (Vec3 1 2 3) (Vec3 0 0 1) (Vec2 0 0) (1/2)
       (Vec3 0 0 0) = Vec4 0 0 1 1 \<and>
   fShader_main (\<lambda>x. x) sqrt_step
       (example_uniforms\<lparr>Ka := Vec3 1 1 1, eye := Vec3 5 5 5, dissolve := 1\<rparr>)
       (Vec3 7 8 9) (Vec3 1 0 0) (Vec2 1 1) (1/4) (Vec3 1 1 1) =
     fShader_main fl_up sqrt_step example_uniforms (Vec3 1 2 3) (Vec3 0 0 1) (Vec2 0 0) (1/2)
       (Vec3 0 0 0)"
proof -
  have h: "mode example_uniforms = 2" by (simp add: example_uniforms_def)
  from constant_mode_flat_color[OF h, of fl_up sqrt_step "Vec3 1 2 3" "Vec3 0 0 1" "Vec2 0 0" "1/2"
      "Vec3 0 0 0"]
  show ?thesis using h by (simp add: example_uniforms_def)
qed

subsection \<open>The inverse-depth encoding\<close>

lemma fl_bounds:
  assumes "rounds_to_float fl" "0 \<le> x"
  shows "(16777215 / 16777216) * x \<le> fl x" and "fl x \<le> (16777217 / 16777216) * x"
proof -
  have "\<bar>fl x - x\<bar> \<le> float_eps * \<bar>x\<bar>"
    using assms(1) unfolding rounds_to_float_def by blast
  then have "\<bar>fl x - x\<bar> \<le> x / 16777216"
    using assms(2) by (simp add: float_eps_def)
  then show "(16777215 / 16777216) * x \<le> fl x" and "fl x \<le> (16777217 / 16777216) * x"
    by linarith+
qed

lemma cube_hi:
  assumes "0 \<le> (x::real)" "x \<le> 65535"
  shows "(16777217 / 16777216) * ((16777217 / 16777216) * ((16777217 / 16777216) * x) + 1 / 2)
         \<le> x + 1 / 2 + 1 / 80"
proof -
  have "(16777217 / 16777216 :: real) * ((16777217 / 16777216) * ((16777217 / 16777216) * x) + 1 / 2)
      = x + (844424980463617 / 4722366482869645213696) * x + 16777217 / 33554432"
    by (simp add: algebra_simps)
  moreover have "(844424980463617 / 4722366482869645213696 :: real) * x
      \<le> (844424980463617 / 4722366482869645213696) * 65535"
    by (rule mult_left_mono) (use assms in simp_all)
  ultimately show ?thesis by simp
qed

lemma cube_lo:
  assumes "0 \<le> (x::real)" "x \<le> 65535"
  shows "x + 1 / 2 - 1 / 80
         \<le> (16777215 / 16777216) * ((16777215 / 16777216) * ((16777215 / 16777216) * x) + 1 / 2)"
proof -
  have "(16777215 / 16777216 :: real) * ((16777215 / 16777216) * ((16777215 / 16777216) * x) + 1 / 2)
      = x - (844424879800321 / 4722366482869645213696) * x + 16777215 / 33554432"
    by (simp add: algebra_simps)
  moreover have "(844424879800321 / 4722366482869645213696 :: real) * x
      \<le> (844424879800321 / 4722366482869645213696) * 65535"
    by (rule mult_left_mono) (use assms in simp_all)
  ultimately show ?thesis by simp
qed

lemma code_bounds:
  assumes fl: "rounds_to_float fl" and m: "0 \<le> m" and v: "0 \<le> v" and x: "m * v \<le> 65535"
  shows "m * v + 1 / 2 - 1 / 80 \<le> fl (fl (fl m * v) + 1 / 2)"
    and "fl (fl (fl m * v) + 1 / 2) \<le> m * v + 1 / 2 + 1 / 80"
proof -
  let ?K0 = "16777215 / 16777216 :: real" and ?K1 = "16777217 / 16777216 :: real"
  let ?x = "m * v"
  have x0: "0 \<le> ?x" using m v by simp
  have a_lo: "?K0 * m \<le> fl m" and a_hi: "fl m \<le> ?K1 * m" using fl_bounds[OF fl m] by simp_all
  have "0 \<le> ?K0 * m" using m by simp
  then have a0: "0 \<le> fl m" using a_lo by linarith
  have t_lo: "?K0 * ?x \<le> fl m * v" using mult_right_mono[OF a_lo v] by (simp add: mult.assoc)
  have t_hi: "fl m * v \<le> ?K1 * ?x" using mult_right_mono[OF a_hi v] by (simp add: mult.assoc)
  have t0: "0 \<le> fl m * v" using a0 v by simp
  have b_lo: "?K0 * (fl m * v) \<le> fl (fl m * v)" and b_hi: "fl (fl m * v) \<le> ?K1 * (fl m * v)"
    using fl_bounds[OF fl t0] by simp_all
  have "?K0 * (?K0 * ?x) \<le> ?K0 * (fl m * v)" by (rule mult_left_mono) (use t_lo in simp_all)
  then have b_lo': "?K0 * (?K0 * ?x) \<le> fl (fl m * v)" using b_lo by linarith
  have "?K1 * (fl m * v) \<le> ?K1 * (?K1 * ?x)" by (rule mult_left_mono) (use t_hi in simp_all)
  then have b_hi': "fl (fl m * v) \<le> ?K1 * (?K1 * ?x)" using b_hi by linarith
  have "0 \<le> ?K0 * (fl m * v)" using t0 by simp
  then have b0: "0 \<le> fl (fl m * v)" using b_lo by linarith
  let ?c = "fl (fl m * v) + 1 / 2"
  have c0: "0 \<le> ?c" using b0 by simp
  have f_lo: "?K0 * ?c \<le> fl ?c" and f_hi: "fl ?c \<le> ?K1 * ?c"
    using fl_bounds[OF fl c0] by simp_all
  have "?K0 * (?K0 * (?K0 * ?x) + 1 / 2) \<le> ?K0 * ?c"
    by (rule mult_left_mono) (use b_lo' in simp_all)
  then have f_lo': "?K0 * (?K0 * (?K0 * ?x) + 1 / 2) \<le> fl ?c" using f_lo by linarith
  have "?K1 * ?c \<le> ?K1 * (?K1 * (?K1 * ?x) + 1 / 2)"
    by (rule mult_left_mono) (use b_hi' in simp_all)
  then have f_hi': "fl ?c \<le> ?K1 * (?K1 * (?K1 * ?x) + 1 / 2)" using f_hi by linarith
  show "m * v + 1 / 2 - 1 / 80 \<le> fl (fl (fl m * v) + 1 / 2)"
    using cube_lo[OF x0 x] f_lo' by linarith
  show "fl (fl (fl m * v) + 1 / 2) \<le> m * v + 1 / 2 + 1 / 80"
    using cube_hi[OF x0 x] f_hi' by linarith
qed

lemma byte_split:
  assumes "0 \<le> f" "f < 65536"
  shows "0 \<le> \<lfloor>f / 256\<rfloor>" and "\<lfloor>f / 256\<rfloor> \<le> 255"
    and "0 \<le> \<lfloor>f - real_of_int \<lfloor>f / 256\<rfloor> * 256\<rfloor>"
    and "\<lfloor>f - real_of_int \<lfloor>f / 256\<rfloor> * 256\<rfloor> \<le> 255"
    and "256 * \<lfloor>f / 256\<rfloor> + \<lfloor>f - real_of_int \<lfloor>f / 256\<rfloor> * 256\<rfloor> = \<lfloor>f\<rfloor>"
proof -
  define k where "k = \<lfloor>f\<rfloor>"
  have k0: "0 \<le> k" using assms(1) by (simp add: k_def)
  have k1: "k < 65536" using assms(2) by (simp add: k_def floor_less_iff)
  have ms: "\<lfloor>f / 256\<rfloor> = k div 256"
    using floor_divide_real_eq_div[of 256 f] by (simp add: k_def)
  have ls: "\<lfloor>f - real_of_int \<lfloor>f / 256\<rfloor> * 256\<rfloor> = k mod 256"
  proof -
    have "f - real_of_int \<lfloor>f / 256\<rfloor> * 256 = f - real_of_int (\<lfloor>f / 256\<rfloor> * 256)" by simp
    then have "\<lfloor>f - real_of_int \<lfloor>f / 256\<rfloor> * 256\<rfloor> = \<lfloor>f\<rfloor> - \<lfloor>f / 256\<rfloor> * 256"
      by (simp only: floor_diff_of_int)
    then show ?thesis unfolding ms k_def[symmetric] by (simp add: minus_div_mult_eq_mod)
  qed
  show "0 \<le> \<lfloor>f / 256\<rfloor>" unfolding ms using k0 by presburger
  show "\<lfloor>f / 256\<rfloor> \<le> 255" unfolding ms using k1 by presburger
  show "0 \<le> \<lfloor>f - real_of_int \<lfloor>f / 256\<rfloor> * 256\<rfloor>" unfolding ls by presburger
  show "\<lfloor>f - real_of_int \<lfloor>f / 256\<rfloor> * 256\<rfloor> \<le> 255" unfolding ls by presburger
  show "256 * \<lfloor>f / 256\<rfloor> + \<lfloor>f - real_of_int \<lfloor>f / 256\<rfloor> * 256\<rfloor> = \<lfloor>f\<rfloor>"
    by (simp only: ls) (simp only: ms flip: k_def, presburger)
qed

lemma unorm8_byte:
  assumes fl: "rounds_to_float fl" and k: "0 \<le> k" "k \<le> 255"
  shows "unorm8 (fl (real_of_int k / 255)) = k"
proof -
  let ?y = "fl (real_of_int k / 255)"
  have q0: "0 \<le> real_of_int k / 255" using k by simp
  have lo: "(16777215 / 16777216) * (real_of_int k / 255) \<le> ?y"
    and hi: "?y \<le> (16777217 / 16777216) * (real_of_int k / 255)"
    using fl_bounds[OF fl q0] by simp_all
  have kr: "0 \<le> real_of_int k" "real_of_int k \<le> 255" using k by simp_all
  have y0: "0 \<le> ?y" using lo kr by simp
  have cl: "clamp ?y 0 1 = min ?y 1" using y0 by (simp add: clamp_def max_def)
  have c_hi: "255 * min ?y 1 \<le> real_of_int k + 1 / 4"
  proof -
    have "255 * min ?y 1 \<le> 255 * ?y" by simp
    also have "\<dots> \<le> 255 * ((16777217 / 16777216) * (real_of_int k / 255))"
      using hi by simp
    also have "\<dots> \<le> real_of_int k + 1 / 4" using kr by simp
    finally show ?thesis .
  qed
  have c_lo: "real_of_int k - 1 / 4 \<le> 255 * min ?y 1"
  proof -
    have a: "real_of_int k - 1 / 4 \<le> 255 * ((16777215 / 16777216) * (real_of_int k / 255))"
      using kr by simp
    have "255 * ((16777215 / 16777216) * (real_of_int k / 255)) \<le> 255 * ?y" using lo by simp
    then have b: "real_of_int k - 1 / 4 \<le> 255 * ?y" using a by linarith
    have c: "real_of_int k - 1 / 4 \<le> 255 * 1" using kr by simp
    show ?thesis using b c by (simp add: min_def)
  qed
  have "\<lfloor>255 * min ?y 1 + 1 / 2\<rfloor> = k"
    using c_lo c_hi by (intro floor_unique) simp_all
  then show ?thesis by (simp add: unorm8_def cl)
qed

lemma rounds_to_float_id: "rounds_to_float (\<lambda>x. x)"
  by (simp add: rounds_to_float_def float_eps_def)

lemma rounds_to_float_up: "rounds_to_float fl_up"
  by (simp add: rounds_to_float_def float_eps_def fl_up_def abs_mult algebra_simps)

text \<open>
  A fragment nearer than \<open>minDepth\<close> gets a code that does not fit the two 8-bit
  channels. With \<open>minDepth = 1\<close>, a fragment on the near plane (depth-buffer value 0,
  inverse depth 10) is given the colour \<open>(2559/255, 246/255, 0, 1)\<close>; the red channel
  holds 255, the decoding gives \<open>65526 / 65535\<close>, and the inverse depth 10 is missed by
  far more than \<open>1 / 65535\<close>.
\<close>

theorem inverse_depth_saturates:
  "rounds_to_float (\<lambda>x. x) \<and> mode near_uniforms = 4 \<and> minDepth near_uniforms = 1 \<and>
   InverseDepth (\<lambda>x. x) 0 = 10 \<and>
   fShader_main (\<lambda>x. x) sqrt_step near_uniforms (Vec3 1 2 3) (Vec3 0 0 1) (Vec2 0 0) 0 (Vec3 0 0 0) =
     Vec4 (2559 / 255) (246 / 255) 0 1 \<and>
   256 * unorm8 (2559 / 255) + unorm8 (246 / 255) = 65526 \<and>
   \<not> \<bar>real_of_int 65526 / (65535 * minDepth near_uniforms) - InverseDepth (\<lambda>x. x) 0\<bar>
       \<le> 1 / (65535 * minDepth near_uniforms)"
proof -
  have inv: "InverseDepth (\<lambda>x. x) 0 = 10"
    by (simp add: InverseDepth_def INV_NEAR_def NEAR_def)
  have md: "mode near_uniforms = 4" "minDepth near_uniforms = 1"
    by (simp_all add: near_uniforms_def example_uniforms_def)
  have c: "fShader_main (\<lambda>x. x) sqrt_step near_uniforms (Vec3 1 2 3) (Vec3 0 0 1) (Vec2 0 0) 0
      (Vec3 0 0 0) = Vec4 (2559 / 255) (246 / 255) 0 1"
    by (simp add: fShader_main_def md inv Let_def)
  have b: "256 * unorm8 (2559 / 255) + unorm8 (246 / 255) = 65526"
    by (simp add: unorm8_def clamp_def)
  show ?thesis using rounds_to_float_id inv md c b by simp
qed

text \<open>
  Claim C1, amended. Take any rounding of relative error at most \<open>2^-24\<close> (exact
  arithmetic is one), \<open>minDepth > 0\<close>, and a fragment shaded in mode 4 whose inverse
  depth lies between 0 and \<open>1 / minDepth\<close>: the fragment is no nearer than \<open>minDepth\<close>.
  Then the red and green channels, read as 8-bit values \<open>R\<close> and \<open>G\<close>, give a
  \<open>depth_code = 256 * R + G\<close> between 0 and 65535 with
  \<open>\<bar>depth_code / (65535 * minDepth) - inverse depth\<bar> \<le> 1 / (65535 * minDepth)\<close>; the
  blue channel is 0 and alpha is 1.
\<close>

theorem inverse_depth_round_trip:
  assumes "rounds_to_float fl" and "mode u = 4" and "0 < minDepth u"
    and "0 \<le> InverseDepth fl z" and "minDepth u * InverseDepth fl z \<le> 1"
  shows "(let c = fShader_main fl fsqrt u p n tc z un;
              depth_code = 256 * unorm8 (cr c) + unorm8 (cg c)
          in \<bar>real_of_int depth_code / (65535 * minDepth u) - InverseDepth fl z\<bar>
               \<le> 1 / (65535 * minDepth u) \<and>
             0 \<le> depth_code \<and> depth_code \<le> 65535 \<and>
             cb c = 0 \<and> ca c = 1)"
proof -
  let ?m = "65535 * minDepth u" and ?v = "InverseDepth fl z"
  let ?f = "fl (fl (fl ?m * ?v) + 1 / 2)"
  let ?ms = "\<lfloor>?f / 256\<rfloor>" and ?ls = "\<lfloor>?f - real_of_int \<lfloor>?f / 256\<rfloor> * 256\<rfloor>"
  have m0: "0 \<le> ?m" and mpos: "0 < ?m" using assms(3) by simp_all
  have x: "?m * ?v \<le> 65535" using assms(3,5) by (simp add: mult.assoc)
  have x0: "0 \<le> ?m * ?v" using m0 assms(4) by simp
  note fb = code_bounds[OF assms(1) m0 assms(4) x]
  have f0: "0 \<le> ?f" using fb(1) x0 by linarith
  have f1: "?f < 65536" using fb(2) x by linarith
  note bs = byte_split[OF f0 f1]
  have R: "unorm8 (fl (real_of_int ?ms / 255)) = ?ms"
    by (rule unorm8_byte[OF assms(1) bs(1,2)])
  have G: "unorm8 (fl (real_of_int ?ls / 255)) = ?ls"
    by (rule unorm8_byte[OF assms(1) bs(3,4)])
  have main: "fShader_main fl fsqrt u p n tc z un =
      Vec4 (fl (real_of_int ?ms / 255)) (fl (real_of_int ?ls / 255)) 0 1"
    using assms(2) by (simp add: fShader_main_def Let_def)
  have code: "256 * unorm8 (fl (real_of_int ?ms / 255)) + unorm8 (fl (real_of_int ?ls / 255)) = \<lfloor>?f\<rfloor>"
    unfolding R G by (rule bs(5))
  have n_hi: "real_of_int \<lfloor>?f\<rfloor> \<le> ?m * ?v + 1" using fb(2) of_int_floor_le[of ?f] by linarith
  have n_lo: "?m * ?v - 1 \<le> real_of_int \<lfloor>?f\<rfloor>" using fb(1) floor_correct[of ?f] by linarith
  have "\<bar>real_of_int \<lfloor>?f\<rfloor> / ?m - ?v\<bar> = \<bar>real_of_int \<lfloor>?f\<rfloor> - ?m * ?v\<bar> / ?m"
    using mpos by (simp add: field_simps abs_divide)
  also have "\<dots> \<le> 1 / ?m"
    using n_hi n_lo mpos by (intro divide_right_mono) (simp_all add: abs_le_iff)
  finally have err: "\<bar>real_of_int \<lfloor>?f\<rfloor> / ?m - ?v\<bar> \<le> 1 / ?m" .
  have rng: "0 \<le> \<lfloor>?f\<rfloor>" "\<lfloor>?f\<rfloor> \<le> 65535"
    using f0 f1 by (simp_all add: floor_less_iff le_floor_iff)
  show ?thesis
    unfolding Let_def main vec4.sel code using err rng by simp
qed

theorem inverse_depth_round_trip_witness:
  "rounds_to_float fl_up \<and> mode depth_uniforms = 4 \<and> 0 < minDepth depth_uniforms \<and>
   0 \<le> InverseDepth fl_up (1 / 2) \<and>
   minDepth depth_uniforms * InverseDepth fl_up (1 / 2) \<le> 1 \<and>
   256 * unorm8 (cr (fShader_main fl_up sqrt_step depth_uniforms (Vec3 1 2 3) (Vec3 0 0 1)
                       (Vec2 0 0) (1 / 2) (Vec3 0 0 0))) +
     unorm8 (cg (fShader_main fl_up sqrt_step depth_uniforms (Vec3 1 2 3) (Vec3 0 0 1)
                   (Vec2 0 0) (1 / 2) (Vec3 0 0 0))) = 32800 \<and>
   \<bar>real_of_int 32800 / (65535 * minDepth depth_uniforms) - InverseDepth fl_up (1 / 2)\<bar>
     \<le> 1 / (65535 * minDepth depth_uniforms) \<and>
   cb (fShader_main fl_up sqrt_step depth_uniforms (Vec3 1 2 3) (Vec3 0 0 1)
         (Vec2 0 0) (1 / 2) (Vec3 0 0 0)) = 0 \<and>
   ca (fShader_main fl_up sqrt_step depth_uniforms (Vec3 1 2 3) (Vec3 0 0 1)
         (Vec2 0 0) (1 / 2) (Vec3 0 0 0)) = 1"
proof -
  have h: "mode depth_uniforms = 4" "0 < minDepth depth_uniforms"
    by (simp_all add: depth_uniforms_def example_uniforms_def)
  have v: "0 \<le> InverseDepth fl_up (1 / 2)"
    "minDepth depth_uniforms * InverseDepth fl_up (1 / 2) \<le> 1"
    by code_simp+
  have code: "256 * unorm8 (cr (fShader_main fl_up sqrt_step depth_uniforms (Vec3 1 2 3) (Vec3 0 0 1)
                       (Vec2 0 0) (1 / 2) (Vec3 0 0 0))) +
     unorm8 (cg (fShader_main fl_up sqrt_step depth_uniforms (Vec3 1 2 3) (Vec3 0 0 1)
                   (Vec2 0 0) (1 / 2) (Vec3 0 0 0))) = 32800"
    by code_simp
  have inst: "\<bar>real_of_int (256 * unorm8 (cr (fShader_main fl_up sqrt_step depth_uniforms (Vec3 1 2 3)
        (Vec3 0 0 1) (Vec2 0 0) (1 / 2) (Vec3 0 0 0))) +
      unorm8 (cg (fShader_main fl_up sqrt_step depth_uniforms (Vec3 1 2 3) (Vec3 0 0 1)
        (Vec2 0 0) (1 / 2) (Vec3 0 0 0)))) / (65535 * minDepth depth_uniforms) -
      InverseDepth fl_up (1 / 2)\<bar> \<le> 1 / (65535 * minDepth depth_uniforms) \<and>
    cb (fShader_main fl_up sqrt_step depth_uniforms (Vec3 1 2 3) (Vec3 0 0 1)
         (Vec2 0 0) (1 / 2) (Vec3 0 0 0)) = 0 \<and>
    ca (fShader_main fl_up sqrt_step depth_uniforms (Vec3 1 2 3) (Vec3 0 0 1)
         (Vec2 0 0) (1 / 2) (Vec3 0 0 0)) = 1"
    using inverse_depth_round_trip[OF rounds_to_float_up h v, of sqrt_step "Vec3 1 2 3"
        "Vec3 0 0 1" "Vec2 0 0" "Vec3 0 0 0"]
    by (simp only: Let_def)
  then have err: "\<bar>real_of_int 32800 / (65535 * minDepth depth_uniforms) -
      InverseDepth fl_up (1 / 2)\<bar> \<le> 1 / (65535 * minDepth depth_uniforms)"
    unfolding code by blast
  show ?thesis using rounds_to_float_up h v code err inst by blast
qed

end
